theory Spec2Isabelle
  imports Complex_Main "HOL-Library.Word" "HOL-Library.Sublist"
begin

section \<open>The APS relay server (src/server/server.js)\<close>

text \<open>
  The server is an Express application with three routes. Every route is a short chain of
  outbound HTTP calls to one upstream API. The embedding below follows server.js function
  by function. Outbound calls are made explicit: every function that calls \<open>fetch\<close> takes
  the list of requests made so far and returns it extended, so that "no upstream call is
  made" is a statement about that list. An exception is a value \<open>Inl err\<close>.
\<close>

subsection \<open>JavaScript strings\<close>

text \<open>
  A JavaScript string is a sequence of UTF-16 code units. The regular expression of
  \<open>uploadToBucket\<close>, \<open>split\<close>, \<open>trim\<close> and \<open>includes\<close> all work on code units, so a string
  is a list of 16-bit words. \<open>js\<close> embeds an ASCII literal.
\<close>

type_synonym jsstring = "16 word list"
type_synonym byte = "8 word"

definition ch :: "char \<Rightarrow> 16 word" where
  "ch c = of_nat (of_char c)"

definition js :: "string \<Rightarrow> jsstring" where
  "js s = map ch s"

definition in_range :: "char \<Rightarrow> char \<Rightarrow> 16 word \<Rightarrow> bool" where
  "in_range lo hi c \<longleftrightarrow> of_char lo \<le> unat c \<and> unat c \<le> of_char hi"

text \<open>\<open>Array.prototype.join\<close> on an array of strings.\<close>

fun join :: "jsstring \<Rightarrow> jsstring list \<Rightarrow> jsstring" where
  "join sep [] = []"
| "join sep [x] = x"
| "join sep (x # y # ys) = x @ sep @ join sep (y # ys)"

text \<open>
  The string of a number, for the integers the program prints (an HTTP status, the clock):
  decimal digits, with a leading minus sign for a negative value. JavaScript prints an
  integer this way when its magnitude is below \<open>10^21\<close>; every HTTP status and every value
  of \<open>Date.now()\<close> is far below that.
\<close>

definition digit_char :: "nat \<Rightarrow> 16 word" where
  "digit_char d = of_nat (of_char CHR ''0'' + d)"

fun digits10 :: "nat \<Rightarrow> jsstring" where
  "digits10 n =
     (if n < 10 then [digit_char n]
      else digits10 (n div 10) @ [digit_char (n mod 10)])"

declare digits10.simps [simp del]

definition Number_toString :: "int \<Rightarrow> jsstring" where
  "Number_toString n =
     (if n < 0 then ch CHR ''-'' # digits10 (nat (- n)) else digits10 (nat n))"

text \<open>
  \<open>Date.now()\<close> gives a time value: whole milliseconds since the epoch, at most
  \<open>8.64 * 10^15\<close>. A final HTTP status, as \<open>fetch\<close> resolves with, has three digits and
  is at least 200.
\<close>

definition time_value :: "int \<Rightarrow> bool" where
  "time_value t \<longleftrightarrow> 0 \<le> t \<and> t \<le> 8640000000000000"

definition final_status :: "nat \<Rightarrow> bool" where
  "final_status s \<longleftrightarrow> 200 \<le> s \<and> s \<le> 999"

definition is_digit :: "16 word \<Rightarrow> bool" where
  "is_digit c \<longleftrightarrow> in_range CHR ''0'' CHR ''9'' c"

text \<open>The number a string of decimal digits denotes.\<close>

definition decimal_value :: "jsstring \<Rightarrow> nat" where
  "decimal_value s = foldl (\<lambda>a c. 10 * a + (unat c - of_char CHR ''0'')) 0 s"

text \<open>
  \<open>String.prototype.split\<close> with a one-character separator: the empty string splits into
  one empty piece, and a separator at either end gives an empty piece there.
\<close>

fun split :: "16 word \<Rightarrow> jsstring \<Rightarrow> jsstring list" where
  "split sep [] = [[]]"
| "split sep (c # cs) =
     (if c = sep then [] # split sep cs
      else (case split sep cs of
              [] \<Rightarrow> [[c]]
            | p # ps \<Rightarrow> (c # p) # ps))"

text \<open>
  \<open>String.prototype.trim\<close> removes white space and line terminators at both ends. These
  are the code units of the ECMAScript \<open>WhiteSpace\<close> and \<open>LineTerminator\<close> productions.
\<close>

definition white_space :: "16 word \<Rightarrow> bool" where
  "white_space c \<longleftrightarrow>
     unat c \<in> {0x09, 0x0A, 0x0B, 0x0C, 0x0D, 0x20, 0xA0, 0x1680,
                0x2028, 0x2029, 0x202F, 0x205F, 0x3000, 0xFEFF}
     \<or> (0x2000 \<le> unat c \<and> unat c \<le> 0x200A)"

definition trim :: "jsstring \<Rightarrow> jsstring" where
  "trim s = rev (dropWhile white_space (rev (dropWhile white_space s)))"

subsection \<open>UTF-8, base64 and URI escaping\<close>

text \<open>
  \<open>code_points\<close> reads a string as the code points it encodes, pairing surrogates; an
  unpaired surrogate is \<open>None\<close>. \<open>Buffer.from(string)\<close> encodes the code points as UTF-8
  with U+FFFD in place of an unpaired surrogate; \<open>encodeURIComponent\<close> throws a URIError
  on one.
\<close>

definition high_surrogate :: "16 word \<Rightarrow> bool" where
  "high_surrogate c \<longleftrightarrow> 0xD800 \<le> unat c \<and> unat c \<le> 0xDBFF"

definition low_surrogate :: "16 word \<Rightarrow> bool" where
  "low_surrogate c \<longleftrightarrow> 0xDC00 \<le> unat c \<and> unat c \<le> 0xDFFF"

fun code_points :: "jsstring \<Rightarrow> nat option list" where
  "code_points [] = []"
| "code_points [c] =
     (if high_surrogate c \<or> low_surrogate c then [None] else [Some (unat c)])"
| "code_points (c # d # ds) =
     (if high_surrogate c then
        (if low_surrogate d
         then Some (0x10000 + (unat c - 0xD800) * 0x400 + (unat d - 0xDC00)) # code_points ds
         else None # code_points (d # ds))
      else if low_surrogate c then None # code_points (d # ds)
      else Some (unat c) # code_points (d # ds))"

definition utf8_cp :: "nat \<Rightarrow> byte list" where
  "utf8_cp cp =
     (if cp < 0x80 then [of_nat cp]
      else if cp < 0x800 then [of_nat (0xC0 + cp div 64), of_nat (0x80 + cp mod 64)]
      else if cp < 0x10000 then
        [of_nat (0xE0 + cp div 4096), of_nat (0x80 + cp div 64 mod 64),
         of_nat (0x80 + cp mod 64)]
      else
        [of_nat (0xF0 + cp div 262144), of_nat (0x80 + cp div 4096 mod 64),
         of_nat (0x80 + cp div 64 mod 64), of_nat (0x80 + cp mod 64)])"

definition utf8 :: "jsstring \<Rightarrow> byte list" where
  "utf8 s = concat (map (\<lambda>p. utf8_cp (case p of None \<Rightarrow> 0xFFFD | Some cp \<Rightarrow> cp))
                        (code_points s))"

definition base64_alphabet :: string where
  "base64_alphabet = ''ABCDEFGHIJKLMNOPQRSTUVWXYZabcdefghijklmnopqrstuvwxyz0123456789+/''"

definition b64 :: "nat \<Rightarrow> 16 word" where
  "b64 i = ch (base64_alphabet ! (i mod 64))"

text \<open>\<open>buf.toString('base64')\<close>: the standard alphabet, padded with \<open>=\<close>.\<close>

fun base64 :: "byte list \<Rightarrow> jsstring" where
  "base64 [] = []"
| "base64 [a] =
     (let n = unat a * 65536
      in [b64 (n div 262144), b64 (n div 4096), ch CHR ''='', ch CHR ''=''])"
| "base64 [a, b] =
     (let n = unat a * 65536 + unat b * 256
      in [b64 (n div 262144), b64 (n div 4096), b64 (n div 64), ch CHR ''=''])"
| "base64 (a # b # c # rest) =
     (let n = unat a * 65536 + unat b * 256 + unat c
      in [b64 (n div 262144), b64 (n div 4096), b64 (n div 64), b64 n] @ base64 rest)"

text \<open>A thrown JavaScript error: its message and the \<open>status\<close> property, when one was set.\<close>

datatype js_error = Error (message: jsstring) (status: "nat option")

definition uri_unreserved :: "nat \<Rightarrow> bool" where
  "uri_unreserved cp \<longleftrightarrow>
     (of_char CHR ''a'' \<le> cp \<and> cp \<le> of_char CHR ''z'') \<or>
     (of_char CHR ''A'' \<le> cp \<and> cp \<le> of_char CHR ''Z'') \<or>
     (of_char CHR ''0'' \<le> cp \<and> cp \<le> of_char CHR ''9'') \<or>
     cp \<in> of_char ` set ''-_.!~*'' \<or> cp = 0x27 \<or> cp = 0x28 \<or> cp = 0x29"

definition hex_digit :: "nat \<Rightarrow> 16 word" where
  "hex_digit d = ch (''0123456789ABCDEF'' ! (d mod 16))"

definition percent_byte :: "byte \<Rightarrow> jsstring" where
  "percent_byte b = [ch CHR ''%'', hex_digit (unat b div 16), hex_digit (unat b)]"

definition escape_cp :: "nat \<Rightarrow> jsstring" where
  "escape_cp cp =
     (if uri_unreserved cp then [of_nat cp] else concat (map percent_byte (utf8_cp cp)))"

definition encodeURIComponent :: "jsstring \<Rightarrow> js_error + jsstring" where
  "encodeURIComponent s =
     (let cps = code_points s
      in if None \<in> set cps then Inl (Error (js ''URI malformed'') None)
         else Inr (concat (map (\<lambda>p. case p of None \<Rightarrow> [] | Some cp \<Rightarrow> escape_cp cp) cps)))"

subsection \<open>JSON values, upstream responses, outbound requests\<close>

text \<open>
  A JSON value as a body writes it: an object is the list of its members in the order of
  the text, a key may be repeated, and a number is the rational the literal denotes.
\<close>

datatype json =
    JNull
  | JBool bool
  | JNum rat
  | JStr jsstring
  | JArr "json list"
  | JObj "(jsstring \<times> json) list"

text \<open>
  Reading a property \<open>v.key\<close> of the value \<open>JSON.parse\<close> makes of a body: a TypeError on
  \<open>null\<close>, on an object the member with that key (the last one, when the key is repeated),
  and \<open>undefined\<close> (\<open>None\<close>) on an object without the key and on every other value.
\<close>

definition cannot_read :: "string \<Rightarrow> string \<Rightarrow> js_error" where
  "cannot_read what key =
     Error (js ''Cannot read properties of '' @ js what @ js '' (reading ''
            @ [0x27] @ js key @ [0x27] @ js '')'') None"

definition get_property :: "json \<Rightarrow> string \<Rightarrow> js_error + json option" where
  "get_property v key =
     (case v of
        JNull \<Rightarrow> Inl (cannot_read ''null'' key)
      | JObj members \<Rightarrow> Inr (map_of (rev members) (js key))
      | _ \<Rightarrow> Inr None)"

text \<open>
  \<open>JSON.parse\<close> followed by \<open>JSON.stringify\<close>, which is what a body goes through between
  \<open>res.json()\<close> on the upstream response and \<open>res.json(data)\<close> on the client's. An object
  becomes a JavaScript object: a repeated key keeps the place of its first occurrence and
  the value of its last, and the properties are written with the array indices first, in
  ascending order, then the other keys in the order of their creation. An array index is
  the canonical decimal string of an integer below \<open>2^32 - 1\<close>. A number becomes a double
  and is printed again: an integer of magnitude up to \<open>2^53\<close> is unchanged; what happens to
  any other number (rounding, or \<open>null\<close> on overflow) is floating-point arithmetic and a
  parameter of the model, \<open>Number_roundtrip\<close>.
\<close>

definition array_index :: "jsstring \<Rightarrow> bool" where
  "array_index k \<longleftrightarrow>
     k \<noteq> [] \<and> list_all is_digit k \<and> (k = js ''0'' \<or> hd k \<noteq> ch CHR ''0'')
     \<and> decimal_value k < 4294967295"

fun put :: "jsstring \<Rightarrow> json \<Rightarrow> (jsstring \<times> json) list \<Rightarrow> (jsstring \<times> json) list" where
  "put k v [] = [(k, v)]"
| "put k v ((k', v') # ps) = (if k' = k then (k, v) # ps else (k', v') # put k v ps)"

definition own_properties :: "(jsstring \<times> json) list \<Rightarrow> (jsstring \<times> json) list" where
  "own_properties members =
     (let ps = foldl (\<lambda>acc (k, v). put k v acc) [] members
      in sort_key (\<lambda>(k, v). decimal_value k) (filter (\<lambda>(k, v). array_index k) ps)
         @ filter (\<lambda>(k, v). \<not> array_index k) ps)"

definition safe_integer :: "rat \<Rightarrow> bool" where
  "safe_integer q \<longleftrightarrow> q = of_int \<lfloor>q\<rfloor> \<and> \<bar>q\<bar> \<le> 9007199254740992"

fun reserialise :: "(rat \<Rightarrow> json) \<Rightarrow> json \<Rightarrow> json" where
  "reserialise other (JNum q) = (if safe_integer q then JNum q else other q)"
| "reserialise other (JArr xs) = JArr (map (reserialise other) xs)"
| "reserialise other (JObj members) =
     JObj (own_properties (map (\<lambda>(k, v). (k, reserialise other v)) members))"
| "reserialise other v = v"

text \<open>
  A body that the round trip leaves as it is: no object in it repeats a key or has an
  array index as a key, and every number is an integer of magnitude up to \<open>2^53\<close>.
\<close>

fun plain_json :: "json \<Rightarrow> bool" where
  "plain_json (JNum q) = safe_integer q"
| "plain_json (JArr xs) = list_all plain_json xs"
| "plain_json (JObj members) =
     (distinct (map fst members) \<and> list_all (\<lambda>(k, v). \<not> array_index k \<and> plain_json v) members)"
| "plain_json v = True"

text \<open>
  What \<open>fetch\<close> resolves to: the status, the body as text (\<open>res.text()\<close>), and the body as
  JSON (\<open>res.json()\<close>), which is \<open>Inl\<close> the message of the SyntaxError when the body does not
  parse. A rejected \<open>fetch\<close> carries the message of its error.
\<close>

record response =
  status_code :: nat
  body_text :: jsstring
  body_json :: "jsstring + json"

datatype fetch_result = Rejected jsstring | Resolved response

definition ok :: "response \<Rightarrow> bool" where
  "ok res \<longleftrightarrow> 200 \<le> status_code res \<and> status_code res \<le> 299"

text \<open>
  An outbound request. \<open>req_url\<close> is the URL string given to \<open>fetch\<close>; for the manifest
  request, whose path holds a string chosen by the client, it is that string as the URL
  parser of \<open>fetch\<close> reads it (see \<open>manifest_request\<close>). The other URLs are fixed or hold
  the container key of the configuration and an object name made of digits, a hyphen and
  safe characters; the parser leaves them as they are when the container key is one the
  service accepts (three or more characters of \<open>[-_.a-z0-9]\<close>). The template \<open>`Bearer ${token}`\<close> is kept as \<open>Bearer token\<close> with the
  JavaScript value it interpolates (\<open>None\<close> is \<open>undefined\<close>); \<open>JSON.stringify(v)\<close> is kept as
  \<open>JsonBody v\<close> and a \<open>URLSearchParams\<close> as \<open>FormBody\<close>.
\<close>

datatype header_value = Lit jsstring | Bearer "json option"

datatype request_body =
    NoBody
  | FormBody "(string \<times> jsstring) list"
  | JsonBody json
  | BinaryBody "byte list"

record request =
  req_method :: string
  req_url :: jsstring
  req_headers :: "(string \<times> header_value) list"
  req_body :: request_body

text \<open>
  The upstream API answers a request knowing the requests made before it. \<open>fetch\<close> records
  the request and returns the answer, or throws when the call is rejected.
\<close>

type_synonym upstream = "request list \<Rightarrow> request \<Rightarrow> fetch_result"

definition fetch :: "upstream \<Rightarrow> request \<Rightarrow> request list
    \<Rightarrow> (js_error + response) \<times> request list" where
  "fetch up rq calls =
     (case up calls rq of
        Rejected msg \<Rightarrow> (Inl (Error msg None), calls @ [rq])
      | Resolved res \<Rightarrow> (Inr res, calls @ [rq]))"

subsection \<open>Configuration (lines 10 to 24)\<close>

text \<open>
  \<open>process.env\<close> is a dictionary from names to strings. The constants destructured from
  it are \<open>None\<close> when the variable is unset; \<open>APS_REGION\<close> and \<open>APS_ALLOWED_ORIGINS\<close> have
  defaults, which apply to an unset variable only.
\<close>

type_synonym env = "string \<rightharpoonup> jsstring"

definition APS_BASE :: jsstring where
  "APS_BASE = js ''https://developer.api.autodesk.com''"

definition APS_CLIENT_ID :: "env \<Rightarrow> jsstring option" where
  "APS_CLIENT_ID e = e ''APS_CLIENT_ID''"

definition APS_CLIENT_SECRET :: "env \<Rightarrow> jsstring option" where
  "APS_CLIENT_SECRET e = e ''APS_CLIENT_SECRET''"

definition APS_BUCKET_KEY :: "env \<Rightarrow> jsstring option" where
  "APS_BUCKET_KEY e = e ''APS_BUCKET_KEY''"

definition APS_REGION :: "env \<Rightarrow> jsstring" where
  "APS_REGION e = (case e ''APS_REGION'' of None \<Rightarrow> js ''US'' | Some r \<Rightarrow> r)"

definition APS_ALLOWED_ORIGINS :: "env \<Rightarrow> jsstring" where
  "APS_ALLOWED_ORIGINS e = (case e ''APS_ALLOWED_ORIGINS'' of None \<Rightarrow> [] | Some s \<Rightarrow> s)"

definition allowedOrigins :: "env \<Rightarrow> jsstring list" where
  "allowedOrigins e =
     filter (\<lambda>origin. origin \<noteq> [])
       (map (\<lambda>origin. trim origin) (split (ch CHR '','') (APS_ALLOWED_ORIGINS e)))"

text \<open>\<open>!x\<close> for a value that is a string or \<open>undefined\<close>.\<close>

definition falsy :: "jsstring option \<Rightarrow> bool" where
  "falsy x \<longleftrightarrow> x = None \<or> x = Some []"

text \<open>
  Three library functions are parameters of the model: \<open>String.prototype.toLowerCase\<close>
  (Unicode case mapping), \<open>Buffer.from\<close> on a value that is not a string (a TypeError
  or, for an array-like value, a buffer), and what parsing and printing does to a number
  that is not an integer of magnitude up to \<open>2^53\<close>.
\<close>

record platform =
  toLowerCase :: "jsstring \<Rightarrow> jsstring"
  Buffer_from_other :: "json option \<Rightarrow> js_error + byte list"
  Number_roundtrip :: "rat \<Rightarrow> json"

definition Buffer_from :: "platform \<Rightarrow> json option \<Rightarrow> js_error + byte list" where
  "Buffer_from pl v = (case v of Some (JStr s) \<Rightarrow> Inr (utf8 s) | _ \<Rightarrow> Buffer_from_other pl v)"

subsection \<open>The CORS guard (lines 26 to 36)\<close>

text \<open>
  The \<open>origin\<close> callback given to the \<open>cors\<close> middleware, called with the request's Origin
  header (\<open>None\<close> when there is none): \<open>Inr True\<close> is \<open>callback(null, true)\<close> and \<open>Inl err\<close>
  is \<open>callback(err)\<close>.
\<close>

definition cors_origin :: "env \<Rightarrow> jsstring option \<Rightarrow> js_error + bool" where
  "cors_origin e origin =
     (if falsy origin \<or> length (allowedOrigins e) = 0 then Inr True
      else if (case origin of None \<Rightarrow> False | Some s \<Rightarrow> s \<in> set (allowedOrigins e))
      then Inr True
      else Inl (Error (js ''CORS not allowed'') None))"

subsection \<open>requireEnv and getAccessToken (lines 38 to 74)\<close>

definition missing :: "env \<Rightarrow> string list" where
  "missing e =
     (if falsy (APS_CLIENT_ID e) then [''APS_CLIENT_ID''] else []) @
     (if falsy (APS_CLIENT_SECRET e) then [''APS_CLIENT_SECRET''] else []) @
     (if falsy (APS_BUCKET_KEY e) then [''APS_BUCKET_KEY''] else [])"

definition requireEnv :: "env \<Rightarrow> js_error + unit" where
  "requireEnv e =
     (if length (missing e) > 0
      then Inl (Error (js ''Missing env vars: '' @ join (js '', '') (map js (missing e)))
                      (Some 500))
      else Inr ())"

text \<open>A value given to \<open>URLSearchParams\<close> is converted to a string.\<close>

definition param_string :: "jsstring option \<Rightarrow> jsstring" where
  "param_string v = (case v of None \<Rightarrow> js ''undefined'' | Some s \<Rightarrow> s)"

definition token_request :: "env \<Rightarrow> request" where
  "token_request e =
     \<lparr>req_method = ''POST'',
      req_url = APS_BASE @ js ''/authentication/v2/token'',
      req_headers = [(''Content-Type'', Lit (js ''application/x-www-form-urlencoded''))],
      req_body = FormBody
        [(''client_id'', param_string (APS_CLIENT_ID e)),
         (''client_secret'', param_string (APS_CLIENT_SECRET e)),
         (''grant_type'', js ''client_credentials''),
         (''scope'', js ''data:read data:write data:create bucket:create bucket:read'')]\<rparr>"

definition failure_message :: "string \<Rightarrow> response \<Rightarrow> jsstring" where
  "failure_message what res =
     js what @ js '' failed: '' @ Number_toString (int (status_code res)) @ js '' ''
     @ body_text res"

definition getAccessToken :: "env \<Rightarrow> upstream \<Rightarrow> request list
    \<Rightarrow> (js_error + json) \<times> request list" where
  "getAccessToken e up calls =
     (case requireEnv e of
        Inl err \<Rightarrow> (Inl err, calls)
      | Inr _ \<Rightarrow>
          (case fetch up (token_request e) calls of
             (Inl err, calls') \<Rightarrow> (Inl err, calls')
           | (Inr res, calls') \<Rightarrow>
               if \<not> ok res
               then (Inl (Error (failure_message ''Token request'' res)
                                (Some (status_code res))), calls')
               else (case body_json res of
                       Inl msg \<Rightarrow> (Inl (Error msg None), calls')
                     | Inr tokenData \<Rightarrow> (Inr tokenData, calls'))))"

subsection \<open>ensureBucket (lines 76 to 108)\<close>

definition details_request :: "jsstring \<Rightarrow> json option \<Rightarrow> request" where
  "details_request bucketKey token =
     \<lparr>req_method = ''GET'',
      req_url = APS_BASE @ js ''/oss/v2/buckets/'' @ bucketKey @ js ''/details'',
      req_headers = [(''Authorization'', Bearer token)],
      req_body = NoBody\<rparr>"

definition create_request :: "env \<Rightarrow> jsstring \<Rightarrow> json option \<Rightarrow> request" where
  "create_request e bucketKey token =
     \<lparr>req_method = ''POST'',
      req_url = APS_BASE @ js ''/oss/v2/buckets'',
      req_headers =
        [(''Authorization'', Bearer token),
         (''Content-Type'', Lit (js ''application/json'')),
         (''x-ads-region'', Lit (APS_REGION e))],
      req_body = JsonBody (JObj
        [(js ''bucketKey'', JStr bucketKey),
         (js ''policyKey'', JStr (js ''persistent''))])\<rparr>"

definition ensureBucket :: "platform \<Rightarrow> env \<Rightarrow> upstream \<Rightarrow> json option \<Rightarrow> request list
    \<Rightarrow> (js_error + unit) \<times> request list" where
  "ensureBucket pl e up token calls =
     (case APS_BUCKET_KEY e of
        None \<Rightarrow> (Inl (cannot_read ''undefined'' ''toLowerCase''), calls)
      | Some key \<Rightarrow>
          (let bucketKey = toLowerCase pl key
           in case fetch up (details_request bucketKey token) calls of
                (Inl err, calls') \<Rightarrow> (Inl err, calls')
              | (Inr details, calls') \<Rightarrow>
                  if ok details then (Inr (), calls')
                  else if status_code details \<noteq> 404
                  then (Inl (Error (failure_message ''Bucket check'' details) None), calls')
                  else (case fetch up (create_request e bucketKey token) calls' of
                          (Inl err, calls'') \<Rightarrow> (Inl err, calls'')
                        | (Inr res, calls'') \<Rightarrow>
                            if \<not> ok res
                            then (Inl (Error (failure_message ''Bucket create'' res) None),
                                  calls'')
                            else (Inr (), calls''))))"

subsection \<open>uploadToBucket (lines 110 to 133)\<close>

text \<open>
  The uploaded file as multer's memory storage gives it: the original name and the bytes.
  \<open>safe_char\<close> is the character class \<open>[a-zA-Z0-9._-]\<close>; the regular expression has no
  \<open>u\<close> flag, so the replacement is per code unit. \<open>now\<close> is the value of \<open>Date.now()\<close>.
\<close>

record upload_file =
  originalname :: jsstring
  buffer :: "byte list"

definition safe_char :: "16 word \<Rightarrow> bool" where
  "safe_char c \<longleftrightarrow>
     in_range CHR ''a'' CHR ''z'' c \<or> in_range CHR ''A'' CHR ''Z'' c \<or>
     in_range CHR ''0'' CHR ''9'' c \<or>
     c = ch CHR ''.'' \<or> c = ch CHR ''_'' \<or> c = ch CHR ''-''"

definition safeName :: "upload_file \<Rightarrow> jsstring" where
  "safeName f = map (\<lambda>c. if safe_char c then c else ch CHR ''_'') (originalname f)"

definition objectName :: "int \<Rightarrow> upload_file \<Rightarrow> jsstring" where
  "objectName now f = Number_toString now @ js ''-'' @ safeName f"

definition upload_request :: "jsstring \<Rightarrow> jsstring \<Rightarrow> json option \<Rightarrow> upload_file \<Rightarrow> request"
  where
  "upload_request bucketKey name token f =
     \<lparr>req_method = ''PUT'',
      req_url = APS_BASE @ js ''/oss/v2/buckets/'' @ bucketKey @ js ''/objects/'' @ name,
      req_headers =
        [(''Authorization'', Bearer token),
         (''Content-Type'', Lit (js ''application/octet-stream''))],
      req_body = BinaryBody (buffer f)\<rparr>"

definition uploadToBucket :: "platform \<Rightarrow> env \<Rightarrow> upstream \<Rightarrow> int \<Rightarrow> json option
    \<Rightarrow> upload_file \<Rightarrow> request list \<Rightarrow> (js_error + json option) \<times> request list" where
  "uploadToBucket pl e up now token f calls =
     (case APS_BUCKET_KEY e of
        None \<Rightarrow> (Inl (cannot_read ''undefined'' ''toLowerCase''), calls)
      | Some key \<Rightarrow>
          (case encodeURIComponent (objectName now f) of
             Inl err \<Rightarrow> (Inl err, calls)
           | Inr name \<Rightarrow>
               (case fetch up (upload_request (toLowerCase pl key) name token f) calls of
                  (Inl err, calls') \<Rightarrow> (Inl err, calls')
                | (Inr res, calls') \<Rightarrow>
                    if \<not> ok res
                    then (Inl (Error (failure_message ''Upload'' res) None), calls')
                    else (case body_json res of
                            Inl msg \<Rightarrow> (Inl (Error msg None), calls')
                          | Inr data \<Rightarrow>
                              (case get_property data ''objectId'' of
                                 Inl err \<Rightarrow> (Inl err, calls')
                               | Inr objectId \<Rightarrow> (Inr objectId, calls'))))))"

subsection \<open>startTranslation (lines 135 to 157)\<close>

definition job_request :: "json option \<Rightarrow> jsstring \<Rightarrow> request" where
  "job_request token urn =
     \<lparr>req_method = ''POST'',
      req_url = APS_BASE @ js ''/modelderivative/v2/designdata/job'',
      req_headers =
        [(''Authorization'', Bearer token),
         (''Content-Type'', Lit (js ''application/json''))],
      req_body = JsonBody (JObj
        [(js ''input'', JObj [(js ''urn'', JStr urn)]),
         (js ''output'', JObj
            [(js ''formats'', JArr
                [JObj [(js ''type'', JStr (js ''svf2'')),
                       (js ''views'', JArr [JStr (js ''2d''), JStr (js ''3d'')])]])])])\<rparr>"

definition startTranslation :: "upstream \<Rightarrow> json option \<Rightarrow> jsstring \<Rightarrow> request list
    \<Rightarrow> (js_error + unit) \<times> request list" where
  "startTranslation up token urn calls =
     (case fetch up (job_request token urn) calls of
        (Inl err, calls') \<Rightarrow> (Inl err, calls')
      | (Inr res, calls') \<Rightarrow>
          if \<not> ok res
          then (Inl (Error (failure_message ''Translate'' res) None), calls')
          else (Inr (), calls'))"

subsection \<open>The routes and the error middleware (lines 159 to 204)\<close>

text \<open>
  What the client receives: the HTTP status and the JSON body, if one is sent.
  \<open>res.status(s).json(v)\<close> sends the serialised \<open>v\<close>, except that Express (4.18 and later)
  sends no body with the statuses 204, 205 and 304. The client's request is taken to carry
  no cache validator (\<open>If-None-Match\<close>, \<open>If-Modified-Since\<close>), on which Express could answer
  a GET with 304 by itself.
\<close>

record client_response =
  http_status :: nat
  http_body :: "json option"

definition bodyless :: "nat \<Rightarrow> bool" where
  "bodyless s \<longleftrightarrow> s = 204 \<or> s = 205 \<or> s = 304"

definition send_json :: "nat \<Rightarrow> json \<Rightarrow> client_response" where
  "send_json s v = \<lparr>http_status = s, http_body = (if bodyless s then None else Some v)\<rparr>"

text \<open>
  The error middleware renders a thrown error; \<open>||\<close> takes the right operand when the left
  one is \<open>undefined\<close>, \<open>0\<close> or the empty string.
\<close>

definition error_middleware :: "js_error \<Rightarrow> client_response" where
  "error_middleware err =
     send_json (case status err of None \<Rightarrow> 500 | Some s \<Rightarrow> if s = 0 then 500 else s)
       (JObj [(js ''error'',
               JStr (if message err = [] then js ''Server error'' else message err))])"

definition token_route :: "platform \<Rightarrow> env \<Rightarrow> upstream \<Rightarrow> request list
    \<Rightarrow> client_response \<times> request list" where
  "token_route pl e up calls =
     (case getAccessToken e up calls of
        (Inl err, calls') \<Rightarrow> (error_middleware err, calls')
      | (Inr token, calls') \<Rightarrow>
          (send_json 200 (reserialise (Number_roundtrip pl) token), calls'))"

text \<open>The body of the \<open>try\<close> block of the upload route after the check of \<open>req.file\<close>.\<close>

definition upload_translate_chain :: "platform \<Rightarrow> env \<Rightarrow> upstream \<Rightarrow> int \<Rightarrow> upload_file
    \<Rightarrow> request list \<Rightarrow> (js_error + jsstring) \<times> request list" where
  "upload_translate_chain pl e up now f calls =
     (case getAccessToken e up calls of
        (Inl err, c1) \<Rightarrow> (Inl err, c1)
      | (Inr tokenData, c1) \<Rightarrow>
     (case get_property tokenData ''access_token'' of
        Inl err \<Rightarrow> (Inl err, c1)
      | Inr access_token \<Rightarrow>
     (case ensureBucket pl e up access_token c1 of
        (Inl err, c2) \<Rightarrow> (Inl err, c2)
      | (Inr _, c2) \<Rightarrow>
     (case uploadToBucket pl e up now access_token f c2 of
        (Inl err, c3) \<Rightarrow> (Inl err, c3)
      | (Inr objectId, c3) \<Rightarrow>
     (case Buffer_from pl objectId of
        Inl err \<Rightarrow> (Inl err, c3)
      | Inr bytes \<Rightarrow>
     (let urn = base64 bytes
      in case startTranslation up access_token urn c3 of
           (Inl err, c4) \<Rightarrow> (Inl err, c4)
         | (Inr _, c4) \<Rightarrow> (Inr urn, c4)))))))"

definition upload_translate_route :: "platform \<Rightarrow> env \<Rightarrow> upstream \<Rightarrow> int
    \<Rightarrow> upload_file option \<Rightarrow> request list \<Rightarrow> client_response \<times> request list" where
  "upload_translate_route pl e up now req_file calls =
     (case req_file of
        None \<Rightarrow>
          (send_json 400 (JObj [(js ''error'', JStr (js ''No file uploaded.''))]), calls)
      | Some f \<Rightarrow>
          (case upload_translate_chain pl e up now f calls of
             (Inl err, calls') \<Rightarrow> (error_middleware err, calls')
           | (Inr urn, calls') \<Rightarrow> (send_json 200 (JObj [(js ''urn'', JStr urn)]), calls')))"

text \<open>
  The manifest URL is the only one whose path holds a string chosen by the client. The URL
  parser of \<open>fetch\<close> splits the path at the slashes and removes the dot segments: a segment
  \<open>.\<close> is dropped and a segment \<open>..\<close> also drops the segment before it (\<open>%2e\<close> counts as a
  dot). An escaped locator holds unreserved characters and percent escapes only, none of
  which the parser changes otherwise.
\<close>

definition single_dot :: "jsstring \<Rightarrow> bool" where
  "single_dot s \<longleftrightarrow> s \<in> set (map js [''.'', ''%2e'', ''%2E''])"

definition double_dot :: "jsstring \<Rightarrow> bool" where
  "double_dot s \<longleftrightarrow>
     s \<in> set (map js [''..'', ''.%2e'', ''.%2E'', ''%2e.'', ''%2E.'',
                       ''%2e%2e'', ''%2e%2E'', ''%2E%2e'', ''%2E%2E''])"

fun remove_dot_segments :: "jsstring list \<Rightarrow> jsstring list \<Rightarrow> jsstring list" where
  "remove_dot_segments out [] = out"
| "remove_dot_segments out (s # rest) =
     (if double_dot s
      then remove_dot_segments (butlast out @ (if rest = [] then [[]] else [])) rest
      else if single_dot s
      then remove_dot_segments (out @ (if rest = [] then [[]] else [])) rest
      else remove_dot_segments (out @ [s]) rest)"

definition url_path :: "jsstring list \<Rightarrow> jsstring" where
  "url_path segments = concat (map (\<lambda>s. js ''/'' @ s) (remove_dot_segments [] segments))"

definition manifest_request :: "jsstring \<Rightarrow> json option \<Rightarrow> request" where
  "manifest_request escaped token =
     \<lparr>req_method = ''GET'',
      req_url = APS_BASE @ url_path
        [js ''modelderivative'', js ''v2'', js ''designdata'', escaped, js ''manifest''],
      req_headers = [(''Authorization'', Bearer token)],
      req_body = NoBody\<rparr>"

definition manifest_route :: "platform \<Rightarrow> env \<Rightarrow> upstream \<Rightarrow> jsstring \<Rightarrow> request list
    \<Rightarrow> client_response \<times> request list" where
  "manifest_route pl e up urn calls =
     (case getAccessToken e up calls of
        (Inl err, c1) \<Rightarrow> (error_middleware err, c1)
      | (Inr tokenData, c1) \<Rightarrow>
     (case encodeURIComponent urn of
        Inl err \<Rightarrow> (error_middleware err, c1)
      | Inr escaped \<Rightarrow>
     (case get_property tokenData ''access_token'' of
        Inl err \<Rightarrow> (error_middleware err, c1)
      | Inr access_token \<Rightarrow>
     (case fetch up (manifest_request escaped access_token) c1 of
        (Inl err, c2) \<Rightarrow> (error_middleware err, c2)
      | (Inr result, c2) \<Rightarrow>
     (case body_json result of
        Inl msg \<Rightarrow> (error_middleware (Error msg None), c2)
      | Inr data \<Rightarrow>
          (send_json (status_code result) (reserialise (Number_roundtrip pl) data), c2))))))"

subsection \<open>The application\<close>

text \<open>
  An incoming request that matches one of the three routes, after the body parsers: its
  Origin header, and for the upload route \<open>req.file\<close>, for the manifest route
  \<open>req.params.urn\<close>. The \<open>cors\<close> middleware runs first: when the origin callback gives an
  error it passes the error on, which skips every route and reaches the error middleware.
\<close>

datatype route =
    GetToken
  | PostUploadTranslate "upload_file option"
  | GetManifest jsstring

record http_request =
  origin :: "jsstring option"
  route :: route

definition app :: "platform \<Rightarrow> env \<Rightarrow> upstream \<Rightarrow> int \<Rightarrow> http_request \<Rightarrow> request list
    \<Rightarrow> client_response \<times> request list" where
  "app pl e up now req calls =
     (case cors_origin e (origin req) of
        Inl err \<Rightarrow> (error_middleware err, calls)
      | Inr _ \<Rightarrow>
          (case route req of
             GetToken \<Rightarrow> token_route pl e up calls
           | PostUploadTranslate req_file \<Rightarrow> upload_translate_route pl e up now req_file calls
           | GetManifest urn \<Rightarrow> manifest_route pl e up urn calls))"

subsection \<open>The pattern of a stored object name\<close>

text \<open>
  The regular expression \<^verbatim>\<open>^\d+-[A-Za-z0-9._-]+$\<close> of the specification, as a matcher:
  the leading decimal digits must be one or more, a hyphen must follow them, and what
  follows the hyphen must be one or more characters of the class. A hyphen is not a digit,
  so the digits before it are all the leading digits of the string.
\<close>

definition matches_object_pattern :: "jsstring \<Rightarrow> bool" where
  "matches_object_pattern s \<longleftrightarrow>
     takeWhile is_digit s \<noteq> [] \<and>
     (case dropWhile is_digit s of
        [] \<Rightarrow> False
      | h # rest \<Rightarrow> h = ch CHR ''-'' \<and> rest \<noteq> [] \<and> list_all safe_char rest)"

subsection \<open>A stub upstream and a sample configuration\<close>

text \<open>
  The scenarios of the specification run the server against a stub upstream. \<open>scripted\<close>
  answers the n-th outbound call with the n-th entry of a list; the sample configuration
  sets the three required variables. The sample platform stands in for the three library
  functions on the scenarios below, which hold container keys in ASCII, object ids that are
  strings and numbers that are small integers; it is not used outside them.
\<close>

definition scripted :: "fetch_result list \<Rightarrow> upstream" where
  "scripted answers calls rq =
     (if length calls < length answers then answers ! length calls
      else Rejected (js ''fetch failed''))"

definition json_response :: "nat \<Rightarrow> json \<Rightarrow> response" where
  "json_response code v = \<lparr>status_code = code, body_text = [], body_json = Inr v\<rparr>"

definition text_response :: "nat \<Rightarrow> string \<Rightarrow> response" where
  "text_response code t =
     \<lparr>status_code = code, body_text = js t, body_json = Inl (js ''Unexpected token'')\<rparr>"

definition ascii_lower :: "jsstring \<Rightarrow> jsstring" where
  "ascii_lower s = map (\<lambda>c. if in_range CHR ''A'' CHR ''Z'' c then c + 32 else c) s"

definition sample_platform :: platform where
  "sample_platform =
     \<lparr>toLowerCase = ascii_lower,
      Buffer_from_other = (\<lambda>v. Inl (Error (js ''The first argument must be of type string'') None)),
      Number_roundtrip = (\<lambda>q. JNull)\<rparr>"

definition sample_env :: env where
  "sample_env =
     [''APS_CLIENT_ID'' \<mapsto> js ''id'', ''APS_CLIENT_SECRET'' \<mapsto> js ''secret'',
      ''APS_BUCKET_KEY'' \<mapsto> js ''Models'']"

definition sample_file :: upload_file where
  "sample_file = \<lparr>originalname = js ''plan v2.dwg'', buffer = [1, 2, 3]\<rparr>"

definition token_bundle :: json where
  "token_bundle =
     JObj [(js ''access_token'', JStr (js ''tok'')), (js ''expires_in'', JNum 3599)]"

text \<open>
  The successful chain of the specification: a token bundle, container details 404, create
  200, upload 200 with object id \<open>abc\<close>, job start 200.
\<close>

definition success_script :: "fetch_result list" where
  "success_script =
     [Resolved (json_response 200 token_bundle),
      Resolved (text_response 404 ''Bucket not found''),
      Resolved (json_response 200 JNull),
      Resolved (json_response 200 (JObj [(js ''objectId'', JStr (js ''abc''))])),
      Resolved (json_response 200 JNull)]"

text \<open>
  A configuration with an allow-list of two origins, written with stray blanks and an
  empty entry, and one whose allow-list holds commas and white space only.
\<close>

definition restricted_env :: env where
  "restricted_env =
     sample_env(''APS_ALLOWED_ORIGINS'' \<mapsto> js '' https://a.example ,, https://b.example '')"

definition blank_env :: env where
  "blank_env = sample_env(''APS_ALLOWED_ORIGINS'' \<mapsto> js '' , ,,  '')"

section \<open>Properties\<close>

lemma unat_digit_char: "d < 10 \<Longrightarrow> unat (digit_char d) = 48 + d"
  by (simp add: digit_char_def unat_of_nat del: of_nat_add)

lemma digit_char_is_digit: "d < 10 \<Longrightarrow> is_digit (digit_char d)"
  by (simp add: is_digit_def in_range_def unat_digit_char)

lemma digits10_not_Nil: "digits10 n \<noteq> []"
  by (subst digits10.simps) simp

lemma digits10_digits: "c \<in> set (digits10 n) \<Longrightarrow> is_digit c"
proof (induction n arbitrary: c rule: digits10.induct)
  case (1 n)
  show ?case
  proof (cases "n < 10")
    case True
    with "1.prems" show ?thesis
      by (subst (asm) digits10.simps) (simp add: digit_char_is_digit)
  next
    case False
    from "1.prems" have "c \<in> set (digits10 (n div 10)) \<or> c = digit_char (n mod 10)"
      using False by (subst (asm) digits10.simps) auto
    then show ?thesis
    proof
      assume "c \<in> set (digits10 (n div 10))"
      with "1.IH" False show ?thesis by blast
    next
      assume "c = digit_char (n mod 10)"
      then show ?thesis using digit_char_is_digit [of "n mod 10"] by simp
    qed
  qed
qed

lemma decimal_value_digits10: "decimal_value (digits10 n) = n"
proof (induction n rule: digits10.induct)
  case (1 n)
  show ?case
  proof (cases "n < 10")
    case True
    then show ?thesis
      by (subst digits10.simps) (simp add: decimal_value_def unat_digit_char)
  next
    case False
    have "decimal_value (digits10 n)
        = 10 * decimal_value (digits10 (n div 10))
          + (unat (digit_char (n mod 10)) - of_char CHR ''0'')"
      using False by (subst digits10.simps) (simp add: decimal_value_def)
    also have "\<dots> = 10 * (n div 10) + n mod 10"
      using "1.IH" False by (simp add: unat_digit_char)
    finally show ?thesis by simp
  qed
qed

lemma digits10_inj: "digits10 m = digits10 n \<Longrightarrow> m = n"
  by (metis decimal_value_digits10)

lemma hyphen_not_digit: "\<not> is_digit (ch CHR ''-'')"
  by (simp add: is_digit_def in_range_def ch_def)

lemma Number_toString_inj: "Number_toString m = Number_toString n \<Longrightarrow> m = n"
proof -
  assume eq: "Number_toString m = Number_toString n"
  have hd_digit: "is_digit (hd (digits10 k))" for k
    using digits10_digits [of "hd (digits10 k)" k] digits10_not_Nil [of k] by simp
  have neq: "ch CHR ''-'' # digits10 a \<noteq> digits10 b" for a b
  proof
    assume "ch CHR ''-'' # digits10 a = digits10 b"
    then have "hd (digits10 b) = ch CHR ''-''" by (metis list.sel(1))
    with hd_digit [of b] hyphen_not_digit show False by simp
  qed
  show "m = n"
  proof (cases "m < 0"; cases "n < 0")
    assume "m < 0" "n < 0"
    with eq have "nat (- m) = nat (- n)"
      by (auto simp: Number_toString_def dest: digits10_inj)
    with \<open>m < 0\<close> \<open>n < 0\<close> show ?thesis by simp
  next
    assume "m < 0" "\<not> n < 0"
    with eq neq show ?thesis by (simp add: Number_toString_def)
  next
    assume "\<not> m < 0" "n < 0"
    with eq neq [of "nat (- n)" "nat m"] show ?thesis by (simp add: Number_toString_def)
  next
    assume "\<not> m < 0" "\<not> n < 0"
    with eq have "nat m = nat n"
      by (auto simp: Number_toString_def dest: digits10_inj)
    with \<open>\<not> m < 0\<close> \<open>\<not> n < 0\<close> show ?thesis by simp
  qed
qed

lemma safeName_safe: "c \<in> set (safeName f) \<Longrightarrow> safe_char c"
  by (auto simp: safeName_def safe_char_def)

lemma safeName_length: "length (safeName f) = length (originalname f)"
  by (simp add: safeName_def)

lemma safeName_nth:
  "i < length (originalname f) \<Longrightarrow>
   safeName f ! i = (if safe_char (originalname f ! i) then originalname f ! i else ch CHR ''_'')"
  by (simp add: safeName_def)

text \<open>
  The matcher accepts exactly the strings the regular expression describes: digits, one or
  more; a hyphen; characters of the class, one or more.
\<close>

lemma matches_object_pattern_iff:
  "matches_object_pattern s \<longleftrightarrow>
     (\<exists>ds rest. s = ds @ js ''-'' @ rest \<and>
        ds \<noteq> [] \<and> (\<forall>c \<in> set ds. is_digit c) \<and>
        rest \<noteq> [] \<and> (\<forall>c \<in> set rest. safe_char c))"
  (is "?L \<longleftrightarrow> ?R")
proof
  assume ?R
  then obtain ds rest where s: "s = ds @ ch CHR ''-'' # rest" and ds: "ds \<noteq> []"
    "\<forall>c \<in> set ds. is_digit c" and rest: "rest \<noteq> []" "\<forall>c \<in> set rest. safe_char c"
    by (auto simp: js_def)
  have "takeWhile is_digit s = ds" "dropWhile is_digit s = ch CHR ''-'' # rest"
    using ds(2) hyphen_not_digit by (simp_all add: s takeWhile_tail dropWhile_append3)
  with ds rest show ?L by (simp add: matches_object_pattern_def list_all_iff)
next
  assume l: ?L
  then obtain rest where d: "dropWhile is_digit s = ch CHR ''-'' # rest" and
    rest: "rest \<noteq> []" "list_all safe_char rest"
    by (auto simp: matches_object_pattern_def split: list.splits)
  have "s = takeWhile is_digit s @ js ''-'' @ rest"
    using takeWhile_dropWhile_id [of is_digit s] d by (simp add: js_def)
  moreover have "\<forall>c \<in> set (takeWhile is_digit s). is_digit c"
    by (auto dest: set_takeWhileD)
  moreover have "takeWhile is_digit s \<noteq> []"
    using l by (simp add: matches_object_pattern_def)
  ultimately show ?R
    using rest by (auto simp: list_all_iff)
qed

subsection \<open>URI escaping of plain ASCII\<close>

lemma code_points_plain:
  "\<forall>c \<in> set s. \<not> high_surrogate c \<and> \<not> low_surrogate c \<Longrightarrow>
   code_points s = map (\<lambda>c. Some (unat c)) s"
  by (induction s rule: code_points.induct) auto

lemma unreserved_not_surrogate:
  "uri_unreserved (unat c) \<Longrightarrow> \<not> high_surrogate c \<and> \<not> low_surrogate c"
  by (auto simp: uri_unreserved_def high_surrogate_def low_surrogate_def)

lemma encodeURIComponent_unreserved:
  assumes "\<forall>c \<in> set s. uri_unreserved (unat c)"
  shows "encodeURIComponent s = Inr s"
proof -
  have cp: "code_points s = map (\<lambda>c. Some (unat c)) s"
    using assms by (intro code_points_plain) (blast dest: unreserved_not_surrogate)
  have "concat (map (\<lambda>p. case p of None \<Rightarrow> [] | Some cp \<Rightarrow> escape_cp cp)
                    (map (\<lambda>c. Some (unat c)) s)) = s"
    using assms by (induction s) (simp_all add: escape_cp_def)
  then show ?thesis
    by (auto simp: encodeURIComponent_def cp Let_def)
qed

lemma digit_unreserved: "is_digit c \<Longrightarrow> uri_unreserved (unat c)"
  by (simp add: is_digit_def in_range_def uri_unreserved_def)

lemma safe_char_unreserved: "safe_char c \<Longrightarrow> uri_unreserved (unat c)"
  by (auto simp: safe_char_def in_range_def uri_unreserved_def ch_def)

lemma hyphen_unreserved: "uri_unreserved (unat (ch CHR ''-''))"
  by (simp add: uri_unreserved_def ch_def)

lemma Number_toString_unreserved:
  assumes "c \<in> set (Number_toString n)"
  shows "uri_unreserved (unat c)"
proof -
  from assms have "c = ch CHR ''-'' \<or> (\<exists>k. c \<in> set (digits10 k))"
    by (auto simp: Number_toString_def split: if_splits)
  then show ?thesis
    using hyphen_unreserved by (blast dest: digits10_digits digit_unreserved)
qed

lemma objectName_unreserved:
  assumes "c \<in> set (objectName now f)"
  shows "uri_unreserved (unat c)"
proof -
  from assms have "c \<in> set (Number_toString now) \<or> c = ch CHR ''-'' \<or> c \<in> set (safeName f)"
    by (auto simp: objectName_def js_def)
  then show ?thesis
    using hyphen_unreserved
    by (blast dest: Number_toString_unreserved safeName_safe safe_char_unreserved)
qed

lemma encodeURIComponent_objectName:
  "encodeURIComponent (objectName now f) = Inr (objectName now f)"
  by (rule encodeURIComponent_unreserved) (blast dest: objectName_unreserved)

subsection \<open>One step at a time\<close>

lemma requireEnv_ok: "missing e = [] \<Longrightarrow> requireEnv e = Inr ()"
  by (simp add: requireEnv_def)

lemma getAccessToken_ok:
  assumes "missing e = []" "up calls (token_request e) = Resolved res" "ok res"
    "body_json res = Inr tokenData"
  shows "getAccessToken e up calls = (Inr tokenData, calls @ [token_request e])"
  using assms by (simp add: getAccessToken_def requireEnv_ok fetch_def)

lemma getAccessToken_not_ok:
  assumes "missing e = []" "up calls (token_request e) = Resolved res" "\<not> ok res"
  shows "getAccessToken e up calls =
    (Inl (Error (failure_message ''Token request'' res) (Some (status_code res))),
     calls @ [token_request e])"
  using assms by (simp add: getAccessToken_def requireEnv_ok fetch_def)

lemma ensureBucket_exists:
  assumes "APS_BUCKET_KEY e = Some key"
    "up calls (details_request (toLowerCase pl key) token) = Resolved details" "ok details"
  shows "ensureBucket pl e up token calls =
    (Inr (), calls @ [details_request (toLowerCase pl key) token])"
  using assms by (simp add: ensureBucket_def fetch_def Let_def)

lemma ensureBucket_check_failed:
  assumes "APS_BUCKET_KEY e = Some key"
    "up calls (details_request (toLowerCase pl key) token) = Resolved details"
    "\<not> ok details" "status_code details \<noteq> 404"
  shows "ensureBucket pl e up token calls =
    (Inl (Error (failure_message ''Bucket check'' details) None),
     calls @ [details_request (toLowerCase pl key) token])"
  using assms by (simp add: ensureBucket_def fetch_def Let_def)

lemma not_ok_404: "status_code res = 404 \<Longrightarrow> \<not> ok res"
  by (simp add: ok_def)

lemma ensureBucket_create:
  assumes "APS_BUCKET_KEY e = Some key"
    "up calls (details_request (toLowerCase pl key) token) = Resolved details"
    "status_code details = 404"
    "up (calls @ [details_request (toLowerCase pl key) token])
        (create_request e (toLowerCase pl key) token) = Resolved res"
  shows "ensureBucket pl e up token calls =
    (if ok res then Inr () else Inl (Error (failure_message ''Bucket create'' res) None),
     calls @ [details_request (toLowerCase pl key) token,
              create_request e (toLowerCase pl key) token])"
  using assms by (simp add: ensureBucket_def fetch_def not_ok_404 Let_def)

lemma uploadToBucket_calls:
  assumes "APS_BUCKET_KEY e = Some key"
  shows "snd (uploadToBucket pl e up now token f calls) =
    calls @ [upload_request (toLowerCase pl key) (objectName now f) token f]"
  using assms
  by (simp add: uploadToBucket_def encodeURIComponent_objectName fetch_def
           split: fetch_result.splits sum.splits)

lemma uploadToBucket_ok:
  assumes "APS_BUCKET_KEY e = Some key"
    "up calls (upload_request (toLowerCase pl key) (objectName now f) token f) = Resolved res"
    "ok res" "body_json res = Inr data" "get_property data ''objectId'' = Inr objectId"
  shows "uploadToBucket pl e up now token f calls =
    (Inr objectId, calls @ [upload_request (toLowerCase pl key) (objectName now f) token f])"
  using assms by (simp add: uploadToBucket_def encodeURIComponent_objectName fetch_def)

lemma uploadToBucket_not_ok:
  assumes "APS_BUCKET_KEY e = Some key"
    "up calls (upload_request (toLowerCase pl key) (objectName now f) token f) = Resolved res"
    "\<not> ok res"
  shows "uploadToBucket pl e up now token f calls =
    (Inl (Error (failure_message ''Upload'' res) None),
     calls @ [upload_request (toLowerCase pl key) (objectName now f) token f])"
  using assms by (simp add: uploadToBucket_def encodeURIComponent_objectName fetch_def)

lemma startTranslation_result:
  assumes "up calls (job_request token urn) = Resolved res"
  shows "startTranslation up token urn calls =
    (if ok res then Inr () else Inl (Error (failure_message ''Translate'' res) None),
     calls @ [job_request token urn])"
  using assms by (simp add: startTranslation_def fetch_def)

lemma get_property_JObj: "get_property (JObj members) key = Inr (map_of (rev members) (js key))"
  by (simp add: get_property_def)

lemma upload_translate_route_success:
  assumes config: "missing e = []" "APS_BUCKET_KEY e = Some key" "bk = toLowerCase pl key"
    and token: "up calls (token_request e) = Resolved tokenRes" "ok tokenRes"
      "body_json tokenRes = Inr tokenData"
      "get_property tokenData ''access_token'' = Inr token"
    and details: "up (calls @ [token_request e]) (details_request bk token) = Resolved detailsRes"
      "status_code detailsRes = 404"
    and create: "up (calls @ [token_request e, details_request bk token])
        (create_request e bk token) = Resolved createRes" "ok createRes"
    and upload: "up (calls @ [token_request e, details_request bk token,
          create_request e bk token])
        (upload_request bk (objectName now f) token f) = Resolved uploadRes" "ok uploadRes"
      "body_json uploadRes = Inr data"
      "get_property data ''objectId'' = Inr (Some (JStr objectId))"
    and job: "up (calls @ [token_request e, details_request bk token,
          create_request e bk token, upload_request bk (objectName now f) token f])
        (job_request token (base64 (utf8 objectId))) = Resolved jobRes" "ok jobRes"
  shows "upload_translate_route pl e up now (Some f) calls =
    (\<lparr>http_status = 200,
       http_body = Some (JObj [(js ''urn'', JStr (base64 (utf8 objectId)))])\<rparr>,
     calls @ [token_request e, details_request bk token, create_request e bk token,
              upload_request bk (objectName now f) token f,
              job_request token (base64 (utf8 objectId))])"
proof -
  have t: "getAccessToken e up calls = (Inr tokenData, calls @ [token_request e])"
    using config(1) token(1-3) by (rule getAccessToken_ok)
  have b: "ensureBucket pl e up token (calls @ [token_request e]) =
      (Inr (), calls @ [token_request e, details_request bk token, create_request e bk token])"
    using ensureBucket_create [OF config(2), of up "calls @ [token_request e]" pl token
        detailsRes createRes] details create
    by (simp add: config(3))
  have u: "uploadToBucket pl e up now token f
        (calls @ [token_request e, details_request bk token, create_request e bk token]) =
      (Inr (Some (JStr objectId)),
       calls @ [token_request e, details_request bk token, create_request e bk token,
                upload_request bk (objectName now f) token f])"
    using uploadToBucket_ok [OF config(2), of up _ pl now f token uploadRes data
        "Some (JStr objectId)"] upload
    by (simp add: config(3))
  have s: "startTranslation up token (base64 (utf8 objectId))
        (calls @ [token_request e, details_request bk token, create_request e bk token,
                  upload_request bk (objectName now f) token f]) =
      (Inr (),
       calls @ [token_request e, details_request bk token, create_request e bk token,
                upload_request bk (objectName now f) token f,
                job_request token (base64 (utf8 objectId))])"
    using startTranslation_result [where up = up, OF job(1)] job(2) by simp
  show ?thesis
    by (simp add: upload_translate_route_def upload_translate_chain_def t token(4) b u s
        Buffer_from_def Let_def send_json_def bodyless_def)
qed

text \<open>
  Claim C1. A successful upload-translate request: the configuration is complete, the token
  call answers 2xx with a JSON bundle, the container details call answers 404 and the
  create call 2xx, the upload answers 2xx with a JSON body whose \<open>objectId\<close> is the string
  \<open>objectId\<close>, and the job start answers 2xx. Then the route responds 200 with the JSON
  body \<open>{ urn }\<close> (the resource locator of the specification) whose value is the base64
  encoding of the UTF-8 bytes of \<open>objectId\<close>, after exactly these five outbound calls.
\<close>

theorem C1_upload_translate_success:
  assumes config: "missing e = []" "APS_BUCKET_KEY e = Some key" "bk = toLowerCase pl key"
    and token: "up calls (token_request e) = Resolved tokenRes" "ok tokenRes"
      "body_json tokenRes = Inr tokenData"
      "get_property tokenData ''access_token'' = Inr token"
    and details: "up (calls @ [token_request e]) (details_request bk token) = Resolved detailsRes"
      "status_code detailsRes = 404"
    and create: "up (calls @ [token_request e, details_request bk token])
        (create_request e bk token) = Resolved createRes" "ok createRes"
    and upload: "up (calls @ [token_request e, details_request bk token,
          create_request e bk token])
        (upload_request bk (objectName now f) token f) = Resolved uploadRes" "ok uploadRes"
      "body_json uploadRes = Inr data"
      "get_property data ''objectId'' = Inr (Some (JStr objectId))"
    and job: "up (calls @ [token_request e, details_request bk token,
          create_request e bk token, upload_request bk (objectName now f) token f])
        (job_request token (base64 (utf8 objectId))) = Resolved jobRes" "ok jobRes"
  shows "upload_translate_route pl e up now (Some f) calls =
    (\<lparr>http_status = 200,
       http_body = Some (JObj [(js ''urn'', JStr (base64 (utf8 objectId)))])\<rparr>,
     calls @ [token_request e, details_request bk token, create_request e bk token,
              upload_request bk (objectName now f) token f,
              job_request token (base64 (utf8 objectId))])"
  using assms by (rule upload_translate_route_success)

text \<open>
  Claim C3. A POST to the upload-translate route without a file (\<open>req.file\<close> undefined)
  is answered with HTTP 400 and makes no outbound call: the list of calls is returned as it
  was. Through the whole application no outbound call is made either, whatever the origin.
\<close>

theorem C3_no_file:
  "upload_translate_route pl e up now None calls =
     (\<lparr>http_status = 400,
       http_body = Some (JObj [(js ''error'', JStr (js ''No file uploaded.''))])\<rparr>, calls)
   \<and> snd (app pl e up now \<lparr>origin = og, route = PostUploadTranslate None\<rparr> calls) = calls"
  by (simp add: upload_translate_route_def app_def send_json_def bodyless_def
      split: sum.splits)

text \<open>
  Claim C9. A request without an Origin header is accepted by the CORS guard whatever the
  configured allow-list is, and reaches the handler of its route.
\<close>

theorem C9_no_origin:
  "cors_origin e None = Inr True
   \<and> app pl e up now \<lparr>origin = None, route = GetToken\<rparr> calls = token_route pl e up calls
   \<and> app pl e up now \<lparr>origin = None, route = PostUploadTranslate req_file\<rparr> calls =
       upload_translate_route pl e up now req_file calls
   \<and> app pl e up now \<lparr>origin = None, route = GetManifest urn\<rparr> calls =
       manifest_route pl e up urn calls"
  by (simp add: cors_origin_def falsy_def app_def)

lemmas eval_string = js_def ch_def digit_char_def in_range_def is_digit_def safe_char_def

lemma base64_abc: "base64 (utf8 (js ''abc'')) = js ''YWJj''"
  by (simp add: utf8_def utf8_cp_def high_surrogate_def low_surrogate_def b64_def
      base64_alphabet_def eval_string)

lemma base64_padding:
  "base64 (utf8 (js ''a'')) = js ''YQ==''" "base64 (utf8 (js ''ab'')) = js ''YWI=''"
  by (simp_all add: utf8_def utf8_cp_def high_surrogate_def low_surrogate_def b64_def
      base64_alphabet_def eval_string)

lemma sample_env_complete:
  "missing sample_env = []" "APS_BUCKET_KEY sample_env = Some (js ''Models'')"
  by (simp_all add: missing_def falsy_def sample_env_def APS_CLIENT_ID_def
      APS_CLIENT_SECRET_def APS_BUCKET_KEY_def js_def)

lemma sample_lower: "toLowerCase sample_platform (js ''Models'') = js ''models''"
  by (simp add: sample_platform_def ascii_lower_def eval_string)

lemma sample_objectName:
  "objectName 1700000000000 sample_file = js ''1700000000000-plan_v2.dwg''"
  by (simp add: objectName_def Number_toString_def digits10.simps safeName_def sample_file_def
      eval_string)

lemma sample_access_token:
  "get_property token_bundle ''access_token'' = Inr (Some (JStr (js ''tok'')))"
  by (simp add: get_property_def token_bundle_def js_def ch_def)

text \<open>
  The successful chain of the specification, with object id \<open>abc\<close>: the answer is
  \<open>{ urn: "YWJj" }\<close>.
\<close>

theorem C1_upload_translate_success_witness:
  "upload_translate_route sample_platform sample_env (scripted success_script) 1700000000000
     (Some sample_file) [] =
   (\<lparr>http_status = 200, http_body = Some (JObj [(js ''urn'', JStr (js ''YWJj''))])\<rparr>,
    [token_request sample_env,
     details_request (js ''models'') (Some (JStr (js ''tok''))),
     create_request sample_env (js ''models'') (Some (JStr (js ''tok''))),
     upload_request (js ''models'') (js ''1700000000000-plan_v2.dwg'')
       (Some (JStr (js ''tok''))) sample_file,
     job_request (Some (JStr (js ''tok''))) (js ''YWJj'')])"
proof -
  have "upload_translate_route sample_platform sample_env (scripted success_script)
      1700000000000 (Some sample_file) [] =
    (\<lparr>http_status = 200,
       http_body = Some (JObj [(js ''urn'', JStr (base64 (utf8 (js ''abc''))))])\<rparr>,
     [] @ [token_request sample_env,
      details_request (js ''models'') (Some (JStr (js ''tok''))),
      create_request sample_env (js ''models'') (Some (JStr (js ''tok''))),
      upload_request (js ''models'') (objectName 1700000000000 sample_file)
        (Some (JStr (js ''tok''))) sample_file,
      job_request (Some (JStr (js ''tok''))) (base64 (utf8 (js ''abc'')))])"
  proof (rule C1_upload_translate_success
      [where key = "js ''Models''" and tokenRes = "json_response 200 token_bundle"
         and tokenData = token_bundle
         and detailsRes = "text_response 404 ''Bucket not found''"
         and createRes = "json_response 200 JNull"
         and uploadRes = "json_response 200 (JObj [(js ''objectId'', JStr (js ''abc''))])"
         and data = "JObj [(js ''objectId'', JStr (js ''abc''))]"
         and jobRes = "json_response 200 JNull"])
  qed (simp_all add: sample_env_complete sample_lower sample_access_token scripted_def
        success_script_def json_response_def text_response_def ok_def get_property_JObj)
  then show ?thesis by (simp add: base64_abc sample_objectName)
qed

text \<open>
  Claim C4. The filename is the one multer delivers, which is never empty (multer skips a
  file part without a filename), and the clock reading is a time value. For every such
  filename and reading the stored object name matches \<^verbatim>\<open>^\d+-[A-Za-z0-9._-]+$\<close>. For
  every filename whatever, the sanitised name has the length of the original one and differs
  from it exactly at the code units outside \<open>[A-Za-z0-9._-]\<close>, which become \<open>_\<close>, and the
  same file uploaded at another clock reading gets another object name. At every time value
  the upload request of \<open>uploadToBucket\<close> is the one whose URL ends in the object name.
\<close>

theorem C4_objectName:
  "(originalname f \<noteq> [] \<and> time_value now \<longrightarrow> matches_object_pattern (objectName now f))
   \<and> length (safeName f) = length (originalname f)
   \<and> (\<forall>i < length (originalname f).
         safeName f ! i =
           (if safe_char (originalname f ! i) then originalname f ! i else ch CHR ''_''))
   \<and> (\<forall>later. later \<noteq> now \<longrightarrow> objectName later f \<noteq> objectName now f)
   \<and> (\<forall>pl e up token calls key. time_value now \<and> APS_BUCKET_KEY e = Some key \<longrightarrow>
         snd (uploadToBucket pl e up now token f calls) =
           calls @ [upload_request (toLowerCase pl key) (objectName now f) token f])"
proof -
  have "matches_object_pattern (objectName now f)"
    if "originalname f \<noteq> []" "time_value now"
    unfolding matches_object_pattern_iff
  proof (intro exI conjI)
    show "objectName now f = digits10 (nat now) @ js ''-'' @ safeName f"
      using that(2) by (simp add: objectName_def Number_toString_def time_value_def)
    show "digits10 (nat now) \<noteq> []" by (rule digits10_not_Nil)
    show "\<forall>c \<in> set (digits10 (nat now)). is_digit c" by (blast dest: digits10_digits)
    show "safeName f \<noteq> []" using that(1) by (simp add: safeName_def)
    show "\<forall>c \<in> set (safeName f). safe_char c" by (blast dest: safeName_safe)
  qed
  moreover have "objectName later f \<noteq> objectName now f" if "later \<noteq> now" for later
    using that by (auto simp: objectName_def dest: Number_toString_inj)
  ultimately show ?thesis
    by (simp add: safeName_length safeName_nth uploadToBucket_calls)
qed

text \<open>
  The sample file \<open>plan v2.dwg\<close> at clock reading 1700000000000.
\<close>

theorem C4_objectName_witness:
  "matches_object_pattern (objectName 1700000000000 sample_file)
   \<and> objectName 1700000000000 sample_file = js ''1700000000000-plan_v2.dwg''
   \<and> objectName 1700000000001 sample_file \<noteq> objectName 1700000000000 sample_file
   \<and> snd (uploadToBucket sample_platform sample_env (scripted success_script) 1700000000000
            None sample_file []) =
       [upload_request (js ''models'') (js ''1700000000000-plan_v2.dwg'') None sample_file]"
proof -
  have n: "originalname sample_file \<noteq> []"
    by (simp add: sample_file_def js_def)
  have t: "time_value 1700000000000" by (simp add: time_value_def)
  from C4_objectName [of sample_file 1700000000000] n t sample_env_complete(2) show ?thesis
    by (simp add: sample_objectName sample_lower)
qed

subsection \<open>Messages\<close>

lemma join_sublist: "x \<in> set xs \<Longrightarrow> sublist x (join sep xs)"
proof (induction sep xs rule: join.induct)
  case (1 sep)
  then show ?case by simp
next
  case (2 sep y)
  then show ?case by simp
next
  case (3 sep y z zs)
  show ?case
  proof (cases "x = y")
    case True
    then show ?thesis by (simp add: sublist_append_rightI)
  next
    case False
    with 3 have "sublist x (join sep (z # zs))" by simp
    then show ?thesis by (simp add: sublist_append)
  qed
qed

lemma failure_message_not_Nil: "failure_message what res \<noteq> []"
  by (simp add: failure_message_def js_def)

lemma failure_message_surfaces:
  "sublist (Number_toString (int (status_code res))) (failure_message what res)
   \<and> suffix (body_text res) (failure_message what res)"
proof -
  have "failure_message what res =
      (js what @ js '' failed: '') @ Number_toString (int (status_code res))
        @ (js '' '' @ body_text res)"
    by (simp add: failure_message_def)
  then have "sublist (Number_toString (int (status_code res))) (failure_message what res)"
    by (metis sublist_appendI)
  moreover have "suffix (body_text res) (failure_message what res)"
    by (simp add: failure_message_def suffix_def)
  ultimately show ?thesis by simp
qed

lemma error_middleware_plain:
  "msg \<noteq> [] \<Longrightarrow>
   error_middleware (Error msg None) =
     \<lparr>http_status = 500, http_body = Some (JObj [(js ''error'', JStr msg)])\<rparr>"
  by (simp add: error_middleware_def send_json_def bodyless_def)

lemma error_middleware_status:
  "msg \<noteq> [] \<Longrightarrow> s \<noteq> 0 \<Longrightarrow>
   error_middleware (Error msg (Some s)) =
     \<lparr>http_status = s,
      http_body = (if bodyless s then None else Some (JObj [(js ''error'', JStr msg)]))\<rparr>"
  by (simp add: error_middleware_def send_json_def)

text \<open>
  Claim C5. When any of the three required configuration values is unset or empty, the
  token route answers HTTP 500, the error message is \<open>Missing env vars:\<close> followed by the
  missing names, every missing name occurs in it, and no outbound call is made.
\<close>

theorem C5_missing_config:
  assumes "falsy (APS_CLIENT_ID e) \<or> falsy (APS_CLIENT_SECRET e) \<or> falsy (APS_BUCKET_KEY e)"
  shows "token_route pl e up calls =
      (\<lparr>http_status = 500,
        http_body = Some (JObj [(js ''error'',
          JStr (js ''Missing env vars: '' @ join (js '', '') (map js (missing e))))])\<rparr>,
       calls)
    \<and> (falsy (APS_CLIENT_ID e) \<longrightarrow>
         sublist (js ''APS_CLIENT_ID'')
           (js ''Missing env vars: '' @ join (js '', '') (map js (missing e))))
    \<and> (falsy (APS_CLIENT_SECRET e) \<longrightarrow>
         sublist (js ''APS_CLIENT_SECRET'')
           (js ''Missing env vars: '' @ join (js '', '') (map js (missing e))))
    \<and> (falsy (APS_BUCKET_KEY e) \<longrightarrow>
         sublist (js ''APS_BUCKET_KEY'')
           (js ''Missing env vars: '' @ join (js '', '') (map js (missing e))))"
proof -
  let ?msg = "js ''Missing env vars: '' @ join (js '', '') (map js (missing e))"
  from assms have m: "missing e \<noteq> []"
    by (auto simp: missing_def)
  have "js ''Missing env vars: '' \<noteq> []" by (simp add: js_def)
  with m have "token_route pl e up calls =
      (\<lparr>http_status = 500, http_body = Some (JObj [(js ''error'', JStr ?msg)])\<rparr>, calls)"
    by (simp add: token_route_def getAccessToken_def requireEnv_def error_middleware_def
        send_json_def bodyless_def)
  moreover have "sublist (js name) ?msg" if "name \<in> set (missing e)" for name
  proof -
    from that have "js name \<in> set (map js (missing e))" by simp
    then have "sublist (js name) (join (js '', '') (map js (missing e)))"
      by (rule join_sublist)
    then show ?thesis by (simp add: sublist_append)
  qed
  moreover have "falsy (APS_CLIENT_ID e) \<Longrightarrow> ''APS_CLIENT_ID'' \<in> set (missing e)"
    "falsy (APS_CLIENT_SECRET e) \<Longrightarrow> ''APS_CLIENT_SECRET'' \<in> set (missing e)"
    "falsy (APS_BUCKET_KEY e) \<Longrightarrow> ''APS_BUCKET_KEY'' \<in> set (missing e)"
    by (simp_all add: missing_def)
  ultimately show ?thesis by blast
qed

text \<open>
  With nothing configured all three names are listed; with an empty client secret in the
  sample configuration only that one.
\<close>

theorem C5_missing_config_witness:
  "token_route sample_platform Map.empty (scripted success_script) [] =
     (\<lparr>http_status = 500,
       http_body = Some (JObj [(js ''error'',
         JStr (js ''Missing env vars: APS_CLIENT_ID, APS_CLIENT_SECRET, APS_BUCKET_KEY''))])\<rparr>,
      [])
   \<and> token_route sample_platform (sample_env(''APS_CLIENT_SECRET'' \<mapsto> []))
       (scripted success_script) [] =
     (\<lparr>http_status = 500,
       http_body =
         Some (JObj [(js ''error'', JStr (js ''Missing env vars: APS_CLIENT_SECRET''))])\<rparr>,
      [])"
proof -
  have a: "falsy (APS_CLIENT_ID Map.empty)"
    by (simp add: falsy_def APS_CLIENT_ID_def)
  have ma: "missing Map.empty = [''APS_CLIENT_ID'', ''APS_CLIENT_SECRET'', ''APS_BUCKET_KEY'']"
    by (simp add: missing_def falsy_def APS_CLIENT_ID_def APS_CLIENT_SECRET_def
        APS_BUCKET_KEY_def)
  have b: "falsy (APS_CLIENT_SECRET (sample_env(''APS_CLIENT_SECRET'' \<mapsto> [])))"
    by (simp add: falsy_def APS_CLIENT_SECRET_def)
  have mb: "missing (sample_env(''APS_CLIENT_SECRET'' \<mapsto> [])) = [''APS_CLIENT_SECRET'']"
    by (simp add: missing_def falsy_def APS_CLIENT_ID_def APS_CLIENT_SECRET_def
        APS_BUCKET_KEY_def sample_env_def js_def)
  have "token_route sample_platform Map.empty (scripted success_script) [] =
     (\<lparr>http_status = 500,
       http_body = Some (JObj [(js ''error'',
         JStr (js ''Missing env vars: APS_CLIENT_ID, APS_CLIENT_SECRET, APS_BUCKET_KEY''))])\<rparr>,
      [])"
    using C5_missing_config [of Map.empty sample_platform "scripted success_script" "[]"] a
    by (simp add: ma js_def)
  moreover have "token_route sample_platform (sample_env(''APS_CLIENT_SECRET'' \<mapsto> []))
       (scripted success_script) [] =
     (\<lparr>http_status = 500,
       http_body =
         Some (JObj [(js ''error'', JStr (js ''Missing env vars: APS_CLIENT_SECRET''))])\<rparr>,
      [])"
    using C5_missing_config [of "sample_env(''APS_CLIENT_SECRET'' \<mapsto> [])" sample_platform
        "scripted success_script" "[]"] b
    by (simp add: mb js_def)
  ultimately show ?thesis by simp
qed

text \<open>
  Claim C6, as amended. With the container key configured and the details lookup answered
  by \<open>details\<close>: any 2xx status makes \<open>ensureBucket\<close> return after that one call; 404 makes
  it issue the create call, whose body carries the persistence policy and whose headers
  carry the region, and it succeeds when the create call answers 2xx and fails with
  \<open>Bucket create failed: <status> <body>\<close> otherwise; any other status on the details
  call makes it fail with \<open>Bucket check failed: <status> <body>\<close>. The status and the body
  text of the upstream answer are part of each failure message.
\<close>

theorem C6_ensureBucket:
  assumes "APS_BUCKET_KEY e = Some key" and "bk = toLowerCase pl key"
    and "up calls (details_request bk token) = Resolved details"
  shows "(ok details \<longrightarrow>
            ensureBucket pl e up token calls = (Inr (), calls @ [details_request bk token]))
    \<and> (status_code details = 404 \<longrightarrow>
          (\<forall>res. up (calls @ [details_request bk token]) (create_request e bk token)
                  = Resolved res \<longrightarrow>
             ensureBucket pl e up token calls =
               (if ok res then Inr ()
                else Inl (Error (failure_message ''Bucket create'' res) None),
                calls @ [details_request bk token, create_request e bk token])))
    \<and> (\<not> ok details \<and> status_code details \<noteq> 404 \<longrightarrow>
          ensureBucket pl e up token calls =
            (Inl (Error (failure_message ''Bucket check'' details) None),
             calls @ [details_request bk token]))
    \<and> req_body (create_request e bk token) =
          JsonBody (JObj [(js ''bucketKey'', JStr bk),
                          (js ''policyKey'', JStr (js ''persistent''))])
    \<and> map_of (req_headers (create_request e bk token)) ''x-ads-region''
          = Some (Lit (APS_REGION e))
    \<and> (\<forall>what res.
          sublist (Number_toString (int (status_code res))) (failure_message what res)
          \<and> suffix (body_text res) (failure_message what res))"
proof -
  have "ensureBucket pl e up token calls = (Inr (), calls @ [details_request bk token])"
    if "ok details"
    using ensureBucket_exists [OF assms(1), of up calls pl token details] assms(2,3) that
    by simp
  moreover have "ensureBucket pl e up token calls =
      (if ok res then Inr () else Inl (Error (failure_message ''Bucket create'' res) None),
       calls @ [details_request bk token, create_request e bk token])"
    if "status_code details = 404"
      "up (calls @ [details_request bk token]) (create_request e bk token) = Resolved res"
    for res
    using ensureBucket_create [OF assms(1), of up calls pl token details res] assms(2,3) that
    by simp
  moreover have "ensureBucket pl e up token calls =
      (Inl (Error (failure_message ''Bucket check'' details) None),
       calls @ [details_request bk token])"
    if "\<not> ok details" "status_code details \<noteq> 404"
    using ensureBucket_check_failed [OF assms(1), of up calls pl token details] assms(2,3) that
    by simp
  moreover have "req_body (create_request e bk token) =
      JsonBody (JObj [(js ''bucketKey'', JStr bk), (js ''policyKey'', JStr (js ''persistent''))])"
    "map_of (req_headers (create_request e bk token)) ''x-ads-region''
      = Some (Lit (APS_REGION e))"
    by (simp_all add: create_request_def)
  ultimately show ?thesis
    using failure_message_surfaces by blast
qed

lemma Number_toString_403: "Number_toString 403 = js ''403''"
  by (simp add: Number_toString_def digits10.simps eval_string)

lemma Number_toString_409: "Number_toString 409 = js ''409''"
  by (simp add: Number_toString_def digits10.simps eval_string)

text \<open>
  Details 200: one call. Details 404 and create 200: two calls, success. Details 403: the
  failure \<open>Bucket check failed: 403 Forbidden\<close>. Details 404 and create 409: the failure
  \<open>Bucket create failed: 409 Conflict\<close>.
\<close>

theorem C6_ensureBucket_witness:
  "ensureBucket sample_platform sample_env
      (scripted [Resolved (json_response 200 JNull)]) None [] =
     (Inr (), [details_request (js ''models'') None])
   \<and> ensureBucket sample_platform sample_env
      (scripted [Resolved (text_response 404 ''Bucket not found''),
                 Resolved (json_response 200 JNull)]) None [] =
     (Inr (), [details_request (js ''models'') None,
               create_request sample_env (js ''models'') None])
   \<and> ensureBucket sample_platform sample_env
      (scripted [Resolved (text_response 403 ''Forbidden'')]) None [] =
     (Inl (Error (js ''Bucket check failed: 403 Forbidden'') None),
      [details_request (js ''models'') None])
   \<and> ensureBucket sample_platform sample_env
      (scripted [Resolved (text_response 404 ''Bucket not found''),
                 Resolved (text_response 409 ''Conflict'')]) None [] =
     (Inl (Error (js ''Bucket create failed: 409 Conflict'') None),
      [details_request (js ''models'') None, create_request sample_env (js ''models'') None])"
proof -
  note k = sample_env_complete(2) and l = sample_lower [symmetric]
  have a: "ensureBucket sample_platform sample_env
      (scripted [Resolved (json_response 200 JNull)]) None [] =
     (Inr (), [details_request (js ''models'') None])"
    using C6_ensureBucket [OF k l, of "scripted [Resolved (json_response 200 JNull)]" "[]" None
        "json_response 200 JNull"]
    by (simp add: scripted_def json_response_def ok_def)
  have b: "ensureBucket sample_platform sample_env
      (scripted [Resolved (text_response 404 ''Bucket not found''),
                 Resolved (json_response 200 JNull)]) None [] =
     (Inr (), [details_request (js ''models'') None,
               create_request sample_env (js ''models'') None])"
    using C6_ensureBucket [OF k l, of "scripted [Resolved (text_response 404 ''Bucket not found''),
                 Resolved (json_response 200 JNull)]" "[]" None
        "text_response 404 ''Bucket not found''"]
    by (simp add: scripted_def json_response_def text_response_def ok_def)
  have c: "ensureBucket sample_platform sample_env
      (scripted [Resolved (text_response 403 ''Forbidden'')]) None [] =
     (Inl (Error (js ''Bucket check failed: 403 Forbidden'') None),
      [details_request (js ''models'') None])"
    using C6_ensureBucket [OF k l, of "scripted [Resolved (text_response 403 ''Forbidden'')]"
        "[]" None "text_response 403 ''Forbidden''"]
    by (simp add: scripted_def text_response_def ok_def failure_message_def
        Number_toString_403 js_def)
  have d: "ensureBucket sample_platform sample_env
      (scripted [Resolved (text_response 404 ''Bucket not found''),
                 Resolved (text_response 409 ''Conflict'')]) None [] =
     (Inl (Error (js ''Bucket create failed: 409 Conflict'') None),
      [details_request (js ''models'') None, create_request sample_env (js ''models'') None])"
    using C6_ensureBucket [OF k l, of "scripted [Resolved (text_response 404 ''Bucket not found''),
                 Resolved (text_response 409 ''Conflict'')]" "[]" None
        "text_response 404 ''Bucket not found''"]
    by (simp add: scripted_def text_response_def ok_def failure_message_def
        Number_toString_409 js_def)
  from a b c d show ?thesis by simp
qed

text \<open>
  Claim C6 as stated fails on a details answer 204: it is neither 200 nor 404, and
  \<open>ensureBucket\<close> returns without an error and without a create call.
\<close>

theorem C6_ensureBucket_counterexample:
  "status_code (json_response 204 JNull) \<noteq> 200
   \<and> status_code (json_response 204 JNull) \<noteq> 404
   \<and> ensureBucket sample_platform sample_env
        (scripted [Resolved (json_response 204 JNull)]) None [] =
      (Inr (), [details_request (js ''models'') None])"
  by (simp add: ensureBucket_def sample_env_complete sample_lower fetch_def scripted_def
      json_response_def ok_def)

lemma route_error:
  "upload_translate_chain pl e up now f calls = (Inl err, c) \<Longrightarrow>
   upload_translate_route pl e up now (Some f) calls = (error_middleware err, c)"
  by (simp add: upload_translate_route_def)

text \<open>
  Claim C2, as amended. In the upload-translate chain, with a complete configuration and an
  upstream answer \<open>res\<close> that is a final HTTP response (status 200 to 999) and not 2xx:
  at the token request, the client receives the status of \<open>res\<close> as the HTTP status, with
  the error message \<open>Token request failed: <status> <body>\<close>, except that with status 304
  no body is sent;
  at the container details call with a status other than 404, at the container create
  call, at the upload and at the job start, the client receives an error whose message is
  \<open>Bucket check failed\<close>, \<open>Bucket create failed\<close>, \<open>Upload failed\<close> or
  \<open>Translate failed\<close>, followed by the status and the body text of \<open>res\<close>.
  Each message contains the status in decimal and ends with the body text.
\<close>

theorem C2_upstream_failure:
  assumes "\<not> ok res" and "missing e = []" and "APS_BUCKET_KEY e = Some key"
    and "bk = toLowerCase pl key" and "final_status (status_code res)"
  shows
   "(up calls (token_request e) = Resolved res \<longrightarrow>
       upload_translate_route pl e up now (Some f) calls =
         (\<lparr>http_status = status_code res,
           http_body =
             (if status_code res = 304 then None
              else Some (JObj [(js ''error'',
                                JStr (failure_message ''Token request'' res))]))\<rparr>,
          calls @ [token_request e]))
    \<and> (\<forall>tokenData token c1.
         getAccessToken e up calls = (Inr tokenData, c1) \<and>
         get_property tokenData ''access_token'' = Inr token \<longrightarrow>
         (up c1 (details_request bk token) = Resolved res \<and> status_code res \<noteq> 404 \<longrightarrow>
            http_body (fst (upload_translate_route pl e up now (Some f) calls)) =
              Some (JObj [(js ''error'', JStr (failure_message ''Bucket check'' res))]))
         \<and> (\<forall>details.
               up c1 (details_request bk token) = Resolved details \<and>
               status_code details = 404 \<and>
               up (c1 @ [details_request bk token]) (create_request e bk token)
                 = Resolved res \<longrightarrow>
               http_body (fst (upload_translate_route pl e up now (Some f) calls)) =
                 Some (JObj [(js ''error'', JStr (failure_message ''Bucket create'' res))]))
         \<and> (\<forall>c2. ensureBucket pl e up token c1 = (Inr (), c2) \<longrightarrow>
               (up c2 (upload_request bk (objectName now f) token f) = Resolved res \<longrightarrow>
                  http_body (fst (upload_translate_route pl e up now (Some f) calls)) =
                    Some (JObj [(js ''error'', JStr (failure_message ''Upload'' res))]))
               \<and> (\<forall>objectId bytes c3.
                     uploadToBucket pl e up now token f c2 = (Inr objectId, c3) \<and>
                     Buffer_from pl objectId = Inr bytes \<and>
                     up c3 (job_request token (base64 bytes)) = Resolved res \<longrightarrow>
                     http_body (fst (upload_translate_route pl e up now (Some f) calls)) =
                       Some (JObj [(js ''error'', JStr (failure_message ''Translate'' res))]))))
    \<and> sublist (Number_toString (int (status_code res))) (failure_message what res)
    \<and> suffix (body_text res) (failure_message what res)"
proof -
  note ne = failure_message_not_Nil
  have token: "upload_translate_route pl e up now (Some f) calls =
         (\<lparr>http_status = status_code res,
           http_body =
             (if status_code res = 304 then None
              else Some (JObj [(js ''error'',
                                JStr (failure_message ''Token request'' res))]))\<rparr>,
          calls @ [token_request e])"
    if "up calls (token_request e) = Resolved res"
  proof -
    have b: "bodyless (status_code res) \<longleftrightarrow> status_code res = 304"
      using assms(1) by (auto simp: bodyless_def ok_def)
    have z: "status_code res \<noteq> 0"
      using assms(5) by (simp add: final_status_def)
    have "upload_translate_chain pl e up now f calls =
        (Inl (Error (failure_message ''Token request'' res) (Some (status_code res))),
         calls @ [token_request e])"
      using getAccessToken_not_ok [where up = up, OF assms(2) that(1) assms(1)]
      by (simp add: upload_translate_chain_def)
    then show ?thesis
      using z by (simp add: route_error error_middleware_status ne b)
  qed
  have details: "http_body (fst (upload_translate_route pl e up now (Some f) calls)) =
        Some (JObj [(js ''error'', JStr (failure_message ''Bucket check'' res))])"
    if "getAccessToken e up calls = (Inr tokenData, c1)"
      "get_property tokenData ''access_token'' = Inr token"
      "up c1 (details_request bk token) = Resolved res" "status_code res \<noteq> 404"
    for tokenData token c1
  proof -
    have "ensureBucket pl e up token c1 =
        (Inl (Error (failure_message ''Bucket check'' res) None),
         c1 @ [details_request bk token])"
      using ensureBucket_check_failed [OF assms(3), of up c1 pl token res] that(3,4) assms(1,4)
      by simp
    then have "upload_translate_chain pl e up now f calls =
        (Inl (Error (failure_message ''Bucket check'' res) None),
         c1 @ [details_request bk token])"
      using that(1,2) by (simp add: upload_translate_chain_def)
    then show ?thesis
      by (simp add: route_error error_middleware_plain ne)
  qed
  have create: "http_body (fst (upload_translate_route pl e up now (Some f) calls)) =
        Some (JObj [(js ''error'', JStr (failure_message ''Bucket create'' res))])"
    if "getAccessToken e up calls = (Inr tokenData, c1)"
      "get_property tokenData ''access_token'' = Inr token"
      "up c1 (details_request bk token) = Resolved details" "status_code details = 404"
      "up (c1 @ [details_request bk token]) (create_request e bk token) = Resolved res"
    for tokenData token c1 details
  proof -
    have "ensureBucket pl e up token c1 =
        (Inl (Error (failure_message ''Bucket create'' res) None),
         c1 @ [details_request bk token, create_request e bk token])"
      using ensureBucket_create [OF assms(3), of up c1 pl token details res] that(3,4,5)
        assms(1,4)
      by simp
    then have "upload_translate_chain pl e up now f calls =
        (Inl (Error (failure_message ''Bucket create'' res) None),
         c1 @ [details_request bk token, create_request e bk token])"
      using that(1,2) by (simp add: upload_translate_chain_def)
    then show ?thesis
      by (simp add: route_error error_middleware_plain ne)
  qed
  have upload: "http_body (fst (upload_translate_route pl e up now (Some f) calls)) =
        Some (JObj [(js ''error'', JStr (failure_message ''Upload'' res))])"
    if "getAccessToken e up calls = (Inr tokenData, c1)"
      "get_property tokenData ''access_token'' = Inr token"
      "ensureBucket pl e up token c1 = (Inr (), c2)"
      "up c2 (upload_request bk (objectName now f) token f) = Resolved res"
    for tokenData token c1 c2
  proof -
    have "uploadToBucket pl e up now token f c2 =
        (Inl (Error (failure_message ''Upload'' res) None),
         c2 @ [upload_request bk (objectName now f) token f])"
      using uploadToBucket_not_ok [OF assms(3), of up c2 pl now f token res] that(4) assms(1,4)
      by simp
    then have "upload_translate_chain pl e up now f calls =
        (Inl (Error (failure_message ''Upload'' res) None),
         c2 @ [upload_request bk (objectName now f) token f])"
      using that(1,2,3) by (simp add: upload_translate_chain_def)
    then show ?thesis
      by (simp add: route_error error_middleware_plain ne)
  qed
  have job: "http_body (fst (upload_translate_route pl e up now (Some f) calls)) =
        Some (JObj [(js ''error'', JStr (failure_message ''Translate'' res))])"
    if "getAccessToken e up calls = (Inr tokenData, c1)"
      "get_property tokenData ''access_token'' = Inr token"
      "ensureBucket pl e up token c1 = (Inr (), c2)"
      "uploadToBucket pl e up now token f c2 = (Inr objectId, c3)"
      "Buffer_from pl objectId = Inr bytes"
      "up c3 (job_request token (base64 bytes)) = Resolved res"
    for tokenData token c1 c2 objectId bytes c3
  proof -
    have "startTranslation up token (base64 bytes) c3 =
        (Inl (Error (failure_message ''Translate'' res) None),
         c3 @ [job_request token (base64 bytes)])"
      using startTranslation_result [where up = up, OF that(6)] assms(1) by simp
    then have "upload_translate_chain pl e up now f calls =
        (Inl (Error (failure_message ''Translate'' res) None),
         c3 @ [job_request token (base64 bytes)])"
      using that(1-5) by (simp add: upload_translate_chain_def Let_def)
    then show ?thesis
      by (simp add: route_error error_middleware_plain ne)
  qed
  from token details create upload job failure_message_surfaces [of res what]
  show ?thesis by blast
qed

subsection \<open>Runs against the stub upstream\<close>

lemma sample_token_ok:
  "getAccessToken sample_env (scripted (Resolved (json_response 200 token_bundle) # rest)) [] =
     (Inr token_bundle, [token_request sample_env])"
  using getAccessToken_ok [where up = "scripted (Resolved (json_response 200 token_bundle) # rest)"
      and calls = "[]" and e = sample_env and res = "json_response 200 token_bundle"
      and tokenData = token_bundle]
  by (simp add: sample_env_complete scripted_def json_response_def ok_def)

lemma sample_bucket_ok:
  "ensureBucket sample_platform sample_env
      (scripted (a # Resolved (json_response 200 JNull) # rest)) token [rq] =
     (Inr (), [rq, details_request (js ''models'') token])"
  using ensureBucket_exists [OF sample_env_complete(2),
      where up = "scripted (a # Resolved (json_response 200 JNull) # rest)"
      and calls = "[rq]" and pl = sample_platform and token = token
      and details = "json_response 200 JNull"]
  by (simp add: sample_lower scripted_def json_response_def ok_def)

lemma sample_upload_ok:
  "uploadToBucket sample_platform sample_env
      (scripted (a # b # Resolved (json_response 200 (JObj [(js ''objectId'', JStr (js ''abc''))]))
                 # rest))
      now token sample_file [r1, r2] =
     (Inr (Some (JStr (js ''abc''))),
      [r1, r2, upload_request (js ''models'') (objectName now sample_file) token sample_file])"
  using uploadToBucket_ok [OF sample_env_complete(2),
      where up = "scripted (a # b #
          Resolved (json_response 200 (JObj [(js ''objectId'', JStr (js ''abc''))])) # rest)"
      and calls = "[r1, r2]" and pl = sample_platform and token = token and now = now
      and f = sample_file
      and res = "json_response 200 (JObj [(js ''objectId'', JStr (js ''abc''))])"
      and data = "JObj [(js ''objectId'', JStr (js ''abc''))]"
      and objectId = "Some (JStr (js ''abc''))"]
  by (simp add: sample_lower scripted_def json_response_def ok_def get_property_JObj)

lemma sample_success_run:
  "upload_translate_route sample_platform sample_env (scripted success_script) 1700000000000
     (Some sample_file) [] =
   (\<lparr>http_status = 200,
      http_body = Some (JObj [(js ''urn'', JStr (base64 (utf8 (js ''abc''))))])\<rparr>,
    [] @ [token_request sample_env,
     details_request (js ''models'') (Some (JStr (js ''tok''))),
     create_request sample_env (js ''models'') (Some (JStr (js ''tok''))),
     upload_request (js ''models'') (objectName 1700000000000 sample_file)
       (Some (JStr (js ''tok''))) sample_file,
     job_request (Some (JStr (js ''tok''))) (base64 (utf8 (js ''abc'')))])"
proof (rule upload_translate_route_success
      [where key = "js ''Models''" and tokenRes = "json_response 200 token_bundle"
         and tokenData = token_bundle
         and detailsRes = "text_response 404 ''Bucket not found''"
         and createRes = "json_response 200 JNull"
         and uploadRes = "json_response 200 (JObj [(js ''objectId'', JStr (js ''abc''))])"
         and data = "JObj [(js ''objectId'', JStr (js ''abc''))]"
         and jobRes = "json_response 200 JNull"])
qed (simp_all add: sample_env_complete sample_lower sample_access_token scripted_def
      success_script_def json_response_def text_response_def ok_def get_property_JObj)

lemmas eval_message = failure_message_def Number_toString_def digits10.simps text_response_def
  js_def ch_def digit_char_def

text \<open>
  One run for each step: the token request answered 304 and 401, the details call 403, the
  create call 409, the upload 503, the job start 400.
\<close>

theorem C2_upstream_failure_witness:
  "upload_translate_route sample_platform sample_env
      (scripted [Resolved (text_response 304 [])])
      1700000000000 (Some sample_file) [] =
     (\<lparr>http_status = 304, http_body = None\<rparr>, [token_request sample_env])
   \<and> upload_translate_route sample_platform sample_env
      (scripted [Resolved (text_response 401 ''Unauthorized'')])
      1700000000000 (Some sample_file) [] =
     (\<lparr>http_status = 401,
       http_body = Some (JObj [(js ''error'', JStr (js ''Token request failed: 401 Unauthorized''))])\<rparr>,
      [token_request sample_env])
   \<and> http_body (fst (upload_translate_route sample_platform sample_env
      (scripted [Resolved (json_response 200 token_bundle),
                 Resolved (text_response 403 ''Forbidden'')])
      1700000000000 (Some sample_file) [])) =
     Some (JObj [(js ''error'', JStr (js ''Bucket check failed: 403 Forbidden''))])
   \<and> http_body (fst (upload_translate_route sample_platform sample_env
      (scripted [Resolved (json_response 200 token_bundle),
                 Resolved (text_response 404 ''Bucket not found''),
                 Resolved (text_response 409 ''Conflict'')])
      1700000000000 (Some sample_file) [])) =
     Some (JObj [(js ''error'', JStr (js ''Bucket create failed: 409 Conflict''))])
   \<and> http_body (fst (upload_translate_route sample_platform sample_env
      (scripted [Resolved (json_response 200 token_bundle),
                 Resolved (json_response 200 JNull),
                 Resolved (text_response 503 ''Service Unavailable'')])
      1700000000000 (Some sample_file) [])) =
     Some (JObj [(js ''error'', JStr (js ''Upload failed: 503 Service Unavailable''))])
   \<and> http_body (fst (upload_translate_route sample_platform sample_env
      (scripted [Resolved (json_response 200 token_bundle),
                 Resolved (json_response 200 JNull),
                 Resolved (json_response 200 (JObj [(js ''objectId'', JStr (js ''abc''))])),
                 Resolved (text_response 400 ''Bad Request'')])
      1700000000000 (Some sample_file) [])) =
     Some (JObj [(js ''error'', JStr (js ''Translate failed: 400 Bad Request''))])"
proof -
  note cfg = sample_env_complete and l = sample_lower [symmetric]
  have n: "\<not> ok (text_response code t)" if "code < 200 \<or> 299 < code" for code t
    using that by (auto simp: ok_def text_response_def)
  have fs: "final_status (status_code (text_response code t))"
    if "200 \<le> code" "code \<le> 999" for code t
    using that by (simp add: final_status_def text_response_def)
  have w0: "upload_translate_route sample_platform sample_env
      (scripted [Resolved (text_response 304 [])])
      1700000000000 (Some sample_file) [] =
     (\<lparr>http_status = 304, http_body = None\<rparr>, [token_request sample_env])"
    using C2_upstream_failure [OF n cfg l fs,
        where up = "scripted [Resolved (text_response 304 [])]"
        and calls = "[]" and now = 1700000000000 and f = sample_file, of 304 "[]"]
    by (simp add: scripted_def) (simp add: eval_message)
  have w1: "upload_translate_route sample_platform sample_env
      (scripted [Resolved (text_response 401 ''Unauthorized'')])
      1700000000000 (Some sample_file) [] =
     (\<lparr>http_status = 401,
       http_body = Some (JObj [(js ''error'', JStr (js ''Token request failed: 401 Unauthorized''))])\<rparr>,
      [token_request sample_env])"
    using C2_upstream_failure [OF n cfg l fs,
        where up = "scripted [Resolved (text_response 401 ''Unauthorized'')]"
        and calls = "[]" and now = 1700000000000 and f = sample_file, of 401 "''Unauthorized''"]
    by (simp add: scripted_def) (simp add: eval_message)
  have w2: "http_body (fst (upload_translate_route sample_platform sample_env
      (scripted [Resolved (json_response 200 token_bundle),
                 Resolved (text_response 403 ''Forbidden'')])
      1700000000000 (Some sample_file) [])) =
     Some (JObj [(js ''error'', JStr (js ''Bucket check failed: 403 Forbidden''))])"
    using C2_upstream_failure [OF n cfg l fs,
        where up = "scripted [Resolved (json_response 200 token_bundle),
                 Resolved (text_response 403 ''Forbidden'')]"
        and calls = "[]" and now = 1700000000000 and f = sample_file, of 403 "''Forbidden''"]
      sample_token_ok [of "[Resolved (text_response 403 ''Forbidden'')]"] sample_access_token
    by (simp add: scripted_def) (simp add: eval_message)
  have w3: "http_body (fst (upload_translate_route sample_platform sample_env
      (scripted [Resolved (json_response 200 token_bundle),
                 Resolved (text_response 404 ''Bucket not found''),
                 Resolved (text_response 409 ''Conflict'')])
      1700000000000 (Some sample_file) [])) =
     Some (JObj [(js ''error'', JStr (js ''Bucket create failed: 409 Conflict''))])"
    using C2_upstream_failure [OF n cfg l fs,
        where up = "scripted [Resolved (json_response 200 token_bundle),
                 Resolved (text_response 404 ''Bucket not found''),
                 Resolved (text_response 409 ''Conflict'')]"
        and calls = "[]" and now = 1700000000000 and f = sample_file, of 409 "''Conflict''"]
      sample_token_ok [of "[Resolved (text_response 404 ''Bucket not found''),
                 Resolved (text_response 409 ''Conflict'')]"] sample_access_token
    by (simp add: scripted_def) (simp add: eval_message)
  have w4: "http_body (fst (upload_translate_route sample_platform sample_env
      (scripted [Resolved (json_response 200 token_bundle),
                 Resolved (json_response 200 JNull),
                 Resolved (text_response 503 ''Service Unavailable'')])
      1700000000000 (Some sample_file) [])) =
     Some (JObj [(js ''error'', JStr (js ''Upload failed: 503 Service Unavailable''))])"
    using C2_upstream_failure [OF n cfg l fs,
        where up = "scripted [Resolved (json_response 200 token_bundle),
                 Resolved (json_response 200 JNull),
                 Resolved (text_response 503 ''Service Unavailable'')]"
        and calls = "[]" and now = 1700000000000 and f = sample_file,
        of 503 "''Service Unavailable''"]
      sample_token_ok [of "[Resolved (json_response 200 JNull),
                 Resolved (text_response 503 ''Service Unavailable'')]"] sample_access_token
      sample_bucket_ok [of "Resolved (json_response 200 token_bundle)"
          "[Resolved (text_response 503 ''Service Unavailable'')]"]
    by (simp add: scripted_def) (simp add: eval_message)
  have w5: "http_body (fst (upload_translate_route sample_platform sample_env
      (scripted [Resolved (json_response 200 token_bundle),
                 Resolved (json_response 200 JNull),
                 Resolved (json_response 200 (JObj [(js ''objectId'', JStr (js ''abc''))])),
                 Resolved (text_response 400 ''Bad Request'')])
      1700000000000 (Some sample_file) [])) =
     Some (JObj [(js ''error'', JStr (js ''Translate failed: 400 Bad Request''))])"
    using C2_upstream_failure [OF n cfg l fs,
        where up = "scripted [Resolved (json_response 200 token_bundle),
                 Resolved (json_response 200 JNull),
                 Resolved (json_response 200 (JObj [(js ''objectId'', JStr (js ''abc''))])),
                 Resolved (text_response 400 ''Bad Request'')]"
        and calls = "[]" and now = 1700000000000 and f = sample_file, of 400 "''Bad Request''"]
      sample_token_ok [of "[Resolved (json_response 200 JNull),
                 Resolved (json_response 200 (JObj [(js ''objectId'', JStr (js ''abc''))])),
                 Resolved (text_response 400 ''Bad Request'')]"] sample_access_token
      sample_bucket_ok [of "Resolved (json_response 200 token_bundle)"
          "[Resolved (json_response 200 (JObj [(js ''objectId'', JStr (js ''abc''))])),
            Resolved (text_response 400 ''Bad Request'')]"]
      sample_upload_ok [of "Resolved (json_response 200 token_bundle)"
          "Resolved (json_response 200 JNull)" "[Resolved (text_response 400 ''Bad Request'')]"]
    by (simp add: scripted_def Buffer_from_def) (simp add: eval_message)
  from w0 w1 w2 w3 w4 w5 show ?thesis by simp
qed

text \<open>
  Claim C2 as stated fails in two ways. An upload answered 503 reaches the client as HTTP
  500: the error thrown by \<open>uploadToBucket\<close> has no \<open>status\<close> property. And a container
  details call answered 404, which is not 2xx, renders no error at all: the chain goes on
  and the client receives 200.
\<close>

theorem C2_upstream_failure_counterexample:
  "\<not> ok (text_response 503 ''Service Unavailable'')
   \<and> http_status (fst (upload_translate_route sample_platform sample_env
        (scripted [Resolved (json_response 200 token_bundle),
                   Resolved (json_response 200 JNull),
                   Resolved (text_response 503 ''Service Unavailable'')])
        1700000000000 (Some sample_file) [])) = 500
   \<and> \<not> ok (text_response 404 ''Bucket not found'')
   \<and> success_script ! 1 = Resolved (text_response 404 ''Bucket not found'')
   \<and> http_status (fst (upload_translate_route sample_platform sample_env
        (scripted success_script) 1700000000000 (Some sample_file) [])) = 200"
proof -
  let ?up = "scripted [Resolved (json_response 200 token_bundle),
                   Resolved (json_response 200 JNull),
                   Resolved (text_response 503 ''Service Unavailable'')]"
  have n: "\<not> ok (text_response 503 ''Service Unavailable'')"
    "\<not> ok (text_response 404 ''Bucket not found'')"
    by (simp_all add: ok_def text_response_def)
  have "uploadToBucket sample_platform sample_env ?up 1700000000000 (Some (JStr (js ''tok'')))
      sample_file [token_request sample_env,
                   details_request (js ''models'') (Some (JStr (js ''tok'')))] =
    (Inl (Error (failure_message ''Upload'' (text_response 503 ''Service Unavailable'')) None),
     [token_request sample_env, details_request (js ''models'') (Some (JStr (js ''tok''))),
      upload_request (js ''models'') (objectName 1700000000000 sample_file)
        (Some (JStr (js ''tok''))) sample_file])"
    using uploadToBucket_not_ok [OF sample_env_complete(2), where up = ?up
        and calls = "[token_request sample_env,
                   details_request (js ''models'') (Some (JStr (js ''tok'')))]"
        and pl = sample_platform and res = "text_response 503 ''Service Unavailable''"
        and now = 1700000000000 and f = sample_file and token = "Some (JStr (js ''tok''))"] n(1)
    by (simp add: sample_lower scripted_def)
  then have "upload_translate_chain sample_platform sample_env ?up 1700000000000 sample_file []
      = (Inl (Error (failure_message ''Upload'' (text_response 503 ''Service Unavailable''))
               None),
         [token_request sample_env, details_request (js ''models'') (Some (JStr (js ''tok''))),
          upload_request (js ''models'') (objectName 1700000000000 sample_file)
            (Some (JStr (js ''tok''))) sample_file])"
    by (simp add: upload_translate_chain_def sample_token_ok sample_access_token
        sample_bucket_ok)
  then have "http_status (fst (upload_translate_route sample_platform sample_env ?up
        1700000000000 (Some sample_file) [])) = 500"
    by (simp add: route_error error_middleware_def send_json_def)
  with n sample_success_run show ?thesis
    by (simp add: success_script_def)
qed

lemma app_accepted:
  "cors_origin e og = Inr b \<Longrightarrow>
   app pl e up now \<lparr>origin = og, route = r\<rparr> calls =
     (case r of
        GetToken \<Rightarrow> token_route pl e up calls
      | PostUploadTranslate req_file \<Rightarrow> upload_translate_route pl e up now req_file calls
      | GetManifest urn \<Rightarrow> manifest_route pl e up urn calls)"
  by (simp add: app_def)

text \<open>
  Claim C7, as amended. With a non-empty allow-list, a non-empty Origin value that is not
  one of its entries is rejected: the callback gives the error \<open>CORS not allowed\<close>, the
  application answers with that error and runs no route, so the list of outbound calls is
  unchanged. An Origin value that is an entry is accepted, and so are the empty value and
  a missing header, which the guard treats alike. With an empty allow-list every request is
  accepted and handled by its route.
\<close>

theorem C7_cors_guard:
  "(org \<noteq> [] \<and> allowedOrigins e \<noteq> [] \<and> org \<notin> set (allowedOrigins e) \<longrightarrow>
      cors_origin e (Some org) = Inl (Error (js ''CORS not allowed'') None)
      \<and> app pl e up now \<lparr>origin = Some org, route = r\<rparr> calls =
          (\<lparr>http_status = 500,
            http_body = Some (JObj [(js ''error'', JStr (js ''CORS not allowed''))])\<rparr>, calls))
   \<and> (org \<in> set (allowedOrigins e) \<longrightarrow> cors_origin e (Some org) = Inr True)
   \<and> cors_origin e (Some []) = Inr True
   \<and> cors_origin e None = Inr True
   \<and> (allowedOrigins e = [] \<longrightarrow>
        cors_origin e og = Inr True
        \<and> app pl e up now \<lparr>origin = og, route = r\<rparr> calls =
            (case r of
               GetToken \<Rightarrow> token_route pl e up calls
             | PostUploadTranslate req_file \<Rightarrow>
                 upload_translate_route pl e up now req_file calls
             | GetManifest urn \<Rightarrow> manifest_route pl e up urn calls))"
proof -
  have ne: "js ''CORS not allowed'' \<noteq> []" by (simp add: js_def)
  have "cors_origin e (Some org) = Inl (Error (js ''CORS not allowed'') None)
      \<and> app pl e up now \<lparr>origin = Some org, route = r\<rparr> calls =
          (\<lparr>http_status = 500,
            http_body = Some (JObj [(js ''error'', JStr (js ''CORS not allowed''))])\<rparr>, calls)"
    if "org \<noteq> []" "allowedOrigins e \<noteq> []" "org \<notin> set (allowedOrigins e)"
  proof -
    have "cors_origin e (Some org) = Inl (Error (js ''CORS not allowed'') None)"
      using that by (simp add: cors_origin_def falsy_def)
    then show ?thesis
      by (simp add: app_def error_middleware_plain ne)
  qed
  moreover have "cors_origin e (Some org) = Inr True" if "org \<in> set (allowedOrigins e)"
    using that by (simp add: cors_origin_def)
  moreover have "cors_origin e og = Inr True" if "allowedOrigins e = []"
    using that by (simp add: cors_origin_def)
  moreover have "cors_origin e (Some []) = Inr True" "cors_origin e None = Inr True"
    by (simp_all add: cors_origin_def falsy_def)
  ultimately show ?thesis
    by (simp add: app_accepted)
qed

lemma restricted_allowedOrigins:
  "allowedOrigins restricted_env = [js ''https://a.example'', js ''https://b.example'']"
  by (simp add: allowedOrigins_def APS_ALLOWED_ORIGINS_def restricted_env_def trim_def
      white_space_def js_def ch_def)

lemma sample_allowedOrigins: "allowedOrigins sample_env = []"
  by (simp add: allowedOrigins_def APS_ALLOWED_ORIGINS_def sample_env_def trim_def)

text \<open>
  With the allow-list of two origins, \<open>https://evil.example\<close> is rejected on the upload
  route before any outbound call and \<open>https://b.example\<close> is accepted; with no allow-list
  configured, \<open>https://evil.example\<close> reaches the upload route, which answers 400 to a
  request without a file.
\<close>

theorem C7_cors_guard_witness:
  "app sample_platform restricted_env (scripted success_script) 1700000000000
      \<lparr>origin = Some (js ''https://evil.example''),
       route = PostUploadTranslate (Some sample_file)\<rparr> [] =
     (\<lparr>http_status = 500,
       http_body = Some (JObj [(js ''error'', JStr (js ''CORS not allowed''))])\<rparr>, [])
   \<and> cors_origin restricted_env (Some (js ''https://b.example'')) = Inr True
   \<and> app sample_platform sample_env (scripted success_script) 1700000000000
      \<lparr>origin = Some (js ''https://evil.example''), route = PostUploadTranslate None\<rparr> [] =
     (\<lparr>http_status = 400,
       http_body = Some (JObj [(js ''error'', JStr (js ''No file uploaded.''))])\<rparr>, [])"
proof -
  have a: "js ''https://evil.example'' \<noteq> []"
    "js ''https://evil.example'' \<notin> set (allowedOrigins restricted_env)"
    "js ''https://b.example'' \<in> set (allowedOrigins restricted_env)"
    "allowedOrigins restricted_env \<noteq> []"
    by (simp_all add: restricted_allowedOrigins) (simp_all add: js_def ch_def)
  have w1: "app sample_platform restricted_env (scripted success_script) 1700000000000
      \<lparr>origin = Some (js ''https://evil.example''),
       route = PostUploadTranslate (Some sample_file)\<rparr> [] =
     (\<lparr>http_status = 500,
       http_body = Some (JObj [(js ''error'', JStr (js ''CORS not allowed''))])\<rparr>, [])"
    using C7_cors_guard [where org = "js ''https://evil.example''" and e = restricted_env
        and pl = sample_platform and up = "scripted success_script" and now = 1700000000000
        and r = "PostUploadTranslate (Some sample_file)" and calls = "[]"]
      a(1,2,4)
    by simp
  have w2: "cors_origin restricted_env (Some (js ''https://b.example'')) = Inr True"
    using C7_cors_guard [where org = "js ''https://b.example''" and e = restricted_env] a(3)
    by simp
  have w3: "app sample_platform sample_env (scripted success_script) 1700000000000
      \<lparr>origin = Some (js ''https://evil.example''), route = PostUploadTranslate None\<rparr> [] =
     (\<lparr>http_status = 400,
       http_body = Some (JObj [(js ''error'', JStr (js ''No file uploaded.''))])\<rparr>, [])"
    using C7_cors_guard [where e = sample_env and og = "Some (js ''https://evil.example'')"
        and pl = sample_platform and up = "scripted success_script" and now = 1700000000000
        and r = "PostUploadTranslate None" and calls = "[]"]
      sample_allowedOrigins
    by (simp add: upload_translate_route_def send_json_def bodyless_def)
  from w1 w2 w3 show ?thesis by simp
qed

lemma restricted_env_complete: "missing restricted_env = []"
  by (simp add: missing_def falsy_def restricted_env_def sample_env_def APS_CLIENT_ID_def
      APS_CLIENT_SECRET_def APS_BUCKET_KEY_def js_def)

text \<open>
  Claim C7 as stated fails on the empty Origin value: it is not an entry of the allow-list
  of two origins, yet the guard accepts it and the token route runs and calls upstream.
\<close>

theorem C7_cors_guard_counterexample:
  "allowedOrigins restricted_env = [js ''https://a.example'', js ''https://b.example'']
   \<and> cors_origin restricted_env (Some []) = Inr True
   \<and> app sample_platform restricted_env (scripted success_script) 1700000000000
        \<lparr>origin = Some [], route = GetToken\<rparr> [] =
      (\<lparr>http_status = 200, http_body = Some token_bundle\<rparr>, [token_request restricted_env])"
proof -
  have "cors_origin restricted_env (Some []) = Inr True"
    by (simp add: cors_origin_def falsy_def)
  moreover have "getAccessToken restricted_env (scripted success_script) [] =
      (Inr token_bundle, [token_request restricted_env])"
    using getAccessToken_ok [where up = "scripted success_script" and calls = "[]"
        and e = restricted_env and res = "json_response 200 token_bundle"
        and tokenData = token_bundle]
    by (simp add: restricted_env_complete scripted_def success_script_def json_response_def
        ok_def)
  moreover have "reserialise (Number_roundtrip sample_platform) token_bundle = token_bundle"
    by (simp add: token_bundle_def own_properties_def array_index_def safe_integer_def
        is_digit_def in_range_def js_def ch_def)
  ultimately show ?thesis
    by (simp add: restricted_allowedOrigins app_def token_route_def send_json_def bodyless_def)
qed

subsection \<open>The characters of an escaped string\<close>

lemma hex_digit_unreserved: "uri_unreserved (unat (hex_digit d))"
proof -
  have all: "\<forall>c \<in> set ''0123456789ABCDEF''. uri_unreserved (unat (ch c))"
    by (simp add: ch_def uri_unreserved_def)
  have "d mod 16 < length ''0123456789ABCDEF''" by simp
  then have "''0123456789ABCDEF'' ! (d mod 16) \<in> set ''0123456789ABCDEF''"
    by (rule nth_mem)
  with all show ?thesis
    unfolding hex_digit_def by blast
qed

lemma percent_byte_chars:
  "c \<in> set (percent_byte b) \<Longrightarrow> uri_unreserved (unat c) \<or> c = ch CHR ''%''"
  by (auto simp: percent_byte_def hex_digit_unreserved)

lemma unreserved_small: "uri_unreserved cp \<Longrightarrow> cp < 128"
  by (auto simp: uri_unreserved_def)

lemma escape_cp_chars:
  assumes "c \<in> set (escape_cp cp)"
  shows "uri_unreserved (unat c) \<or> c = ch CHR ''%''"
proof (cases "uri_unreserved cp")
  case True
  then have "unat (of_nat cp :: 16 word) = cp"
    using unreserved_small [of cp] by (simp add: unat_of_nat)
  with True assms show ?thesis by (simp add: escape_cp_def)
next
  case False
  with assms show ?thesis
    by (auto simp: escape_cp_def dest: percent_byte_chars)
qed

lemma encodeURIComponent_chars:
  assumes "encodeURIComponent s = Inr escaped" "c \<in> set escaped"
  shows "uri_unreserved (unat c) \<or> c = ch CHR ''%''"
proof -
  from assms obtain p where "p \<in> set (code_points s)"
    "c \<in> set (case p of None \<Rightarrow> [] | Some cp \<Rightarrow> escape_cp cp)"
    by (auto simp: encodeURIComponent_def Let_def split: if_splits)
  then show ?thesis
    by (cases p) (auto dest: escape_cp_chars)
qed

lemma encodeURIComponent_defined:
  "(\<exists>escaped. encodeURIComponent s = Inr escaped) \<longleftrightarrow> None \<notin> set (code_points s)"
  by (auto simp: encodeURIComponent_def Let_def)

subsection \<open>Parsing and printing a body\<close>

lemma put_fresh: "k \<notin> fst ` set ps \<Longrightarrow> put k v ps = ps @ [(k, v)]"
  by (induction ps) auto

lemma foldl_put_distinct:
  "distinct (map fst (acc @ ms)) \<Longrightarrow>
   foldl (\<lambda>acc (k, v). put k v acc) acc ms = acc @ ms"
proof (induction ms arbitrary: acc)
  case Nil
  then show ?case by simp
next
  case (Cons m ms)
  obtain k v where m: "m = (k, v)" by (cases m)
  from Cons.prems have fresh: "k \<notin> fst ` set acc" by (auto simp: m)
  from Cons.prems have "distinct (map fst ((acc @ [(k, v)]) @ ms))" by (simp add: m)
  then have "foldl (\<lambda>acc (k, v). put k v acc) (acc @ [(k, v)]) ms = (acc @ [(k, v)]) @ ms"
    by (rule Cons.IH)
  then show ?case by (simp add: m put_fresh [OF fresh])
qed

lemma own_properties_plain:
  assumes "distinct (map fst ms)" "list_all (\<lambda>(k, v). \<not> array_index k) ms"
  shows "own_properties ms = ms"
proof -
  have "foldl (\<lambda>acc (k, v). put k v acc) [] ms = ms"
    using foldl_put_distinct [of "[]" ms] assms(1) by simp
  moreover have "filter (\<lambda>(k, v). array_index k) ms = []"
    using assms(2) by (auto simp: filter_empty_conv list_all_iff)
  moreover have "filter (\<lambda>(k, v). \<not> array_index k) ms = ms"
    using assms(2) by (auto simp: filter_id_conv list_all_iff)
  ultimately show ?thesis by (simp add: own_properties_def)
qed

lemma reserialise_plain: "plain_json v \<Longrightarrow> reserialise other v = v"
proof (induction other v rule: reserialise.induct)
  case (1 other q)
  then show ?case by simp
next
  case (2 other xs)
  then show ?case by (simp add: list_all_iff map_idI)
next
  case (3 other members)
  have "map (\<lambda>(k, v). (k, reserialise other v)) members = members"
  proof (rule map_idI)
    fix x assume x: "x \<in> set members"
    obtain k v where kv: "x = (k, v)" by (cases x)
    from "3.prems" x kv have "plain_json v" by (auto simp: list_all_iff)
    with "3.IH" [OF x kv [symmetric]] show "(case x of (k, v) \<Rightarrow> (k, reserialise other v)) = x"
      by (simp add: kv)
  qed
  moreover have "own_properties members = members"
    using "3.prems" by (intro own_properties_plain) (auto simp: list_all_iff)
  ultimately show ?case by simp
qed simp_all

subsection \<open>Dot segments and escaped strings\<close>

lemma code_point_bound: "Some cp \<in> set (code_points s) \<Longrightarrow> cp < 0x110000"
proof (induction s rule: code_points.induct)
  case 1
  then show ?case by simp
next
  case (2 c)
  have "unat c < 65536" using unsigned_less [of c, where 'a = nat] by simp
  with 2 show ?case by (auto split: if_splits)
next
  case (3 c d ds)
  have "unat c < 65536" using unsigned_less [of c, where 'a = nat] by simp
  with 3 show ?case
    by (auto simp: high_surrogate_def low_surrogate_def split: if_splits)
qed

lemma all_unreserved_units:
  "\<forall>p \<in> set (code_points s). \<exists>cp. p = Some cp \<and> uri_unreserved cp \<Longrightarrow>
   \<forall>c \<in> set s. uri_unreserved (unat c)"
proof (induction s rule: code_points.induct)
  case 1
  then show ?case by simp
next
  case (2 c)
  then show ?case by (auto split: if_splits)
next
  case (3 c d ds)
  show ?case
  proof (cases "high_surrogate c")
    case True
    with "3.prems" have "low_surrogate d"
      and "uri_unreserved (0x10000 + (unat c - 0xD800) * 0x400 + (unat d - 0xDC00))"
      by (auto split: if_splits)
    then show ?thesis using unreserved_small by fastforce
  next
    case False
    with "3.prems" have low: "\<not> low_surrogate c" and c: "uri_unreserved (unat c)"
      and rest: "\<forall>p \<in> set (code_points (d # ds)). \<exists>cp. p = Some cp \<and> uri_unreserved cp"
      by (auto split: if_splits)
    from "3.IH"(4) [OF False low rest] c show ?thesis by simp
  qed
qed

lemma dot_unreserved: "uri_unreserved 46" and percent_reserved: "\<not> uri_unreserved 37"
  by (simp_all add: uri_unreserved_def)

lemma first_byte:
  assumes "\<not> uri_unreserved cp" "cp < 0x110000"
  shows "\<exists>b bs. utf8_cp cp = b # bs \<and> unat b \<noteq> 46"
proof -
  have "cp \<noteq> 46" using assms(1) dot_unreserved by auto
  then show ?thesis
    using assms(2) by (auto simp: utf8_cp_def unat_of_nat simp del: of_nat_add)
qed

lemma hex_digit_cases:
  "(hex_digit d = ch CHR ''2'' \<longrightarrow> d mod 16 = 2)
   \<and> (hex_digit d = ch CHR ''E'' \<longrightarrow> d mod 16 = 14)
   \<and> hex_digit d \<noteq> ch CHR ''e''"
proof -
  have "d mod 16 < 16" by simp
  then consider "d mod 16 = 0" | "d mod 16 = 1" | "d mod 16 = 2" | "d mod 16 = 3"
    | "d mod 16 = 4" | "d mod 16 = 5" | "d mod 16 = 6" | "d mod 16 = 7" | "d mod 16 = 8"
    | "d mod 16 = 9" | "d mod 16 = 10" | "d mod 16 = 11" | "d mod 16 = 12"
    | "d mod 16 = 13" | "d mod 16 = 14" | "d mod 16 = 15"
    by atomize_elim arith
  then show ?thesis
    by cases (simp_all add: hex_digit_def ch_def)
qed

lemma percent_byte_dot:
  assumes "percent_byte b = js ''%2e'' \<or> percent_byte b = js ''%2E''"
  shows "unat b = 46"
proof -
  from assms have hi: "hex_digit (unat b div 16) = ch CHR ''2''"
    and lo: "hex_digit (unat b) = ch CHR ''e'' \<or> hex_digit (unat b) = ch CHR ''E''"
    by (auto simp: percent_byte_def js_def)
  have "unat b < 256" using unsigned_less [of b, where 'a = nat] by simp
  then have "unat b div 16 < 16" by simp
  then have "unat b div 16 mod 16 = unat b div 16" by simp
  with hi have d: "unat b div 16 = 2"
    using hex_digit_cases [of "unat b div 16"] by simp
  from lo have m: "unat b mod 16 = 14"
    using hex_digit_cases [of "unat b"] by auto
  have "unat b = 16 * (unat b div 16) + unat b mod 16" by simp
  with d m show ?thesis by simp
qed

lemma first_escape:
  assumes "ch CHR ''%'' \<notin> set pre"
  shows "take 3 (dropWhile (\<lambda>c. c \<noteq> ch CHR ''%'') (pre @ percent_byte b @ post))
    = percent_byte b"
proof -
  have "dropWhile (\<lambda>c. c \<noteq> ch CHR ''%'') (pre @ percent_byte b @ post)
      = dropWhile (\<lambda>c. c \<noteq> ch CHR ''%'') (percent_byte b @ post)"
    using assms by (intro dropWhile_append2) auto
  then show ?thesis by (simp add: percent_byte_def)
qed

lemma dot_first_escape:
  assumes "single_dot s \<or> double_dot s"
  shows "take 3 (dropWhile (\<lambda>c. c \<noteq> ch CHR ''%'') s) \<in> {[], js ''%2e'', js ''%2E''}"
  using assms by (auto simp: single_dot_def double_dot_def js_def ch_def)

lemma dot_without_percent:
  assumes "single_dot s \<or> double_dot s" "\<forall>c \<in> set s. uri_unreserved (unat c)"
  shows "s = js ''.'' \<or> s = js ''..''"
  using assms percent_reserved
  by (auto simp: single_dot_def double_dot_def js_def ch_def)

lemma first_percent:
  assumes "None \<notin> set cps" "\<forall>cp. Some cp \<in> set cps \<longrightarrow> cp < 0x110000"
    "\<exists>cp. Some cp \<in> set cps \<and> \<not> uri_unreserved cp"
  shows "\<exists>pre b post.
    concat (map (\<lambda>p. case p of None \<Rightarrow> [] | Some cp \<Rightarrow> escape_cp cp) cps)
      = pre @ percent_byte b @ post
    \<and> ch CHR ''%'' \<notin> set pre \<and> unat b \<noteq> 46"
  using assms
proof (induction cps)
  case Nil
  then show ?case by simp
next
  case (Cons p ps)
  from Cons.prems(1) obtain cp where p: "p = Some cp" by (cases p) auto
  show ?case
  proof (cases "uri_unreserved cp")
    case True
    then have small: "unat (of_nat cp :: 16 word) = cp"
      using unreserved_small [of cp] by (simp add: unat_of_nat)
    have "(of_nat cp :: 16 word) \<noteq> ch CHR ''%''"
    proof
      assume "(of_nat cp :: 16 word) = ch CHR ''%''"
      then have "unat (of_nat cp :: 16 word) = unat (ch CHR ''%'')" by simp
      then have "cp = 37" by (simp add: small ch_def)
      with True percent_reserved show False by simp
    qed
    moreover from Cons.prems True p
    have "None \<notin> set ps" "\<forall>cp. Some cp \<in> set ps \<longrightarrow> cp < 0x110000"
      "\<exists>cp. Some cp \<in> set ps \<and> \<not> uri_unreserved cp"
      by auto
    then obtain pre b post where
      "concat (map (\<lambda>p. case p of None \<Rightarrow> [] | Some cp \<Rightarrow> escape_cp cp) ps)
        = pre @ percent_byte b @ post" "ch CHR ''%'' \<notin> set pre" "unat b \<noteq> 46"
      using Cons.IH by blast
    ultimately have
      "concat (map (\<lambda>p. case p of None \<Rightarrow> [] | Some cp \<Rightarrow> escape_cp cp) (p # ps))
        = (of_nat cp # pre) @ percent_byte b @ post
       \<and> ch CHR ''%'' \<notin> set (of_nat cp # pre) \<and> unat b \<noteq> 46"
      using True by (simp add: p escape_cp_def)
    then show ?thesis by blast
  next
    case False
    from Cons.prems(2) have "cp < 0x110000" by (simp add: p)
    with False obtain b bs where b: "utf8_cp cp = b # bs" "unat b \<noteq> 46"
      using first_byte by blast
    have "concat (map (\<lambda>p. case p of None \<Rightarrow> [] | Some cp \<Rightarrow> escape_cp cp) (p # ps))
        = [] @ percent_byte b
          @ (concat (map percent_byte bs)
             @ concat (map (\<lambda>p. case p of None \<Rightarrow> [] | Some cp \<Rightarrow> escape_cp cp) ps))"
      using False by (simp add: p escape_cp_def b(1))
    with b(2) show ?thesis by (metis empty_iff list.set(1))
  qed
qed

lemma escaped_dot_segment:
  assumes "encodeURIComponent urn = Inr escaped" "single_dot escaped \<or> double_dot escaped"
  shows "urn = js ''.'' \<or> urn = js ''..''"
proof -
  let ?cps = "code_points urn"
  let ?esc = "\<lambda>p. case p of None \<Rightarrow> [] | Some cp \<Rightarrow> escape_cp cp"
  from assms(1) have none: "None \<notin> set ?cps"
    by (simp add: encodeURIComponent_def Let_def split: if_splits)
  with assms(1) have esc: "escaped = concat (map ?esc ?cps)"
    by (simp add: encodeURIComponent_def Let_def)
  have bound: "\<forall>cp. Some cp \<in> set ?cps \<longrightarrow> cp < 0x110000"
    using code_point_bound by blast
  have all: "\<forall>p \<in> set ?cps. \<exists>cp. p = Some cp \<and> uri_unreserved cp"
  proof (rule ccontr)
    assume "\<not> ?thesis"
    then obtain p where p: "p \<in> set ?cps" "\<forall>cp. p = Some cp \<longrightarrow> \<not> uri_unreserved cp"
      by blast
    have "p \<noteq> None"
    proof
      assume "p = None"
      with p(1) none show False by simp
    qed
    then obtain cp where "p = Some cp" by (cases p) simp_all
    with p have ex: "\<exists>cp. Some cp \<in> set ?cps \<and> \<not> uri_unreserved cp" by blast
    from first_percent [OF none bound ex] obtain pre b post where
      d: "concat (map ?esc ?cps) = pre @ percent_byte b @ post"
      "ch CHR ''%'' \<notin> set pre" "unat b \<noteq> 46"
      by blast
    have "take 3 (dropWhile (\<lambda>c. c \<noteq> ch CHR ''%'') escaped) = percent_byte b"
      using first_escape [OF d(2), of b post] by (simp only: esc d(1))
    then have "percent_byte b \<in> {[], js ''%2e'', js ''%2E''}"
      using dot_first_escape [OF assms(2)] by simp
    moreover have "percent_byte b \<noteq> []" by (simp add: percent_byte_def)
    ultimately have "percent_byte b = js ''%2e'' \<or> percent_byte b = js ''%2E''" by blast
    then have "unat b = 46" by (rule percent_byte_dot)
    with d(3) show False by simp
  qed
  then have plain: "\<forall>c \<in> set urn. uri_unreserved (unat c)"
    by (rule all_unreserved_units)
  then have "encodeURIComponent urn = Inr urn"
    by (rule encodeURIComponent_unreserved)
  with assms(1) have "escaped = urn" by simp
  with assms(2) plain show ?thesis
    using dot_without_percent [of urn] by blast
qed

lemma manifest_url_plain:
  assumes "\<not> single_dot escaped" "\<not> double_dot escaped"
  shows "req_url (manifest_request escaped token) =
    APS_BASE @ js ''/modelderivative/v2/designdata/'' @ escaped @ js ''/manifest''"
proof -
  have "\<not> single_dot (js ''modelderivative'')" "\<not> double_dot (js ''modelderivative'')"
    "\<not> single_dot (js ''v2'')" "\<not> double_dot (js ''v2'')"
    "\<not> single_dot (js ''designdata'')" "\<not> double_dot (js ''designdata'')"
    "\<not> single_dot (js ''manifest'')" "\<not> double_dot (js ''manifest'')"
    by (simp_all add: single_dot_def double_dot_def js_def ch_def)
  with assms show ?thesis
    by (simp add: manifest_request_def url_path_def) (simp add: js_def)
qed

lemma manifest_route_relay:
  assumes "missing e = []"
    and "up calls (token_request e) = Resolved tokenRes" "ok tokenRes"
      "body_json tokenRes = Inr tokenData"
      "get_property tokenData ''access_token'' = Inr token"
    and "encodeURIComponent urn = Inr escaped"
    and "up (calls @ [token_request e]) (manifest_request escaped token) = Resolved result"
      "body_json result = Inr data"
  shows "manifest_route pl e up urn calls =
      (send_json (status_code result) (reserialise (Number_roundtrip pl) data),
       calls @ [token_request e, manifest_request escaped token])"
proof -
  have t: "getAccessToken e up calls = (Inr tokenData, calls @ [token_request e])"
    using assms(1-4) by (rule getAccessToken_ok [where up = up])
  show ?thesis
    using assms(5-8) by (simp add: manifest_route_def t fetch_def)
qed

text \<open>
  Claim C8, as amended. The client's request carries no cache validator. With a complete
  configuration, a token call answered 2xx with a JSON bundle and a locator that
  \<open>encodeURIComponent\<close> escapes to \<open>escaped\<close> (it does so for every string without an
  unpaired surrogate), the manifest route asks the upstream for the manifest and, when the
  answer is a final HTTP response with a JSON body and a status
  that allows a body (not 204, 205 or 304), the client receives that status and the body as
  parsed and printed again. A body in which no object repeats a key or has an array index
  as a key and every number is an integer of magnitude up to \<open>2^53\<close> is received
  unchanged. For every locator other than \<open>.\<close> and \<open>..\<close> the path requested is
  \<open>/modelderivative/v2/designdata/<escaped>/manifest\<close>, and \<open>escaped\<close> holds only
  unreserved characters and percent signs.
\<close>

theorem C8_manifest_relay:
  assumes "missing e = []"
    and "up calls (token_request e) = Resolved tokenRes" "ok tokenRes"
      "body_json tokenRes = Inr tokenData"
      "get_property tokenData ''access_token'' = Inr token"
    and "encodeURIComponent urn = Inr escaped"
    and "up (calls @ [token_request e]) (manifest_request escaped token) = Resolved result"
      "body_json result = Inr data"
    and "final_status (status_code result)" "\<not> bodyless (status_code result)"
  shows "manifest_route pl e up urn calls =
      (\<lparr>http_status = status_code result,
        http_body = Some (reserialise (Number_roundtrip pl) data)\<rparr>,
       calls @ [token_request e, manifest_request escaped token])
    \<and> (plain_json data \<longrightarrow> reserialise (Number_roundtrip pl) data = data)
    \<and> (urn \<noteq> js ''.'' \<and> urn \<noteq> js ''..'' \<longrightarrow>
          req_url (manifest_request escaped token) =
            APS_BASE @ js ''/modelderivative/v2/designdata/'' @ escaped @ js ''/manifest'')
    \<and> (\<forall>c \<in> set escaped. uri_unreserved (unat c) \<or> c = ch CHR ''%'')
    \<and> (\<forall>s. (\<exists>x. encodeURIComponent s = Inr x) \<longleftrightarrow> None \<notin> set (code_points s))"
proof -
  have "manifest_route pl e up urn calls =
      (\<lparr>http_status = status_code result,
        http_body = Some (reserialise (Number_roundtrip pl) data)\<rparr>,
       calls @ [token_request e, manifest_request escaped token])"
    using manifest_route_relay [where up = up, OF assms(1-8)] assms(10)
    by (simp add: send_json_def)
  moreover have "\<forall>c \<in> set escaped. uri_unreserved (unat c) \<or> c = ch CHR ''%''"
    using assms(6) by (blast dest: encodeURIComponent_chars)
  moreover have "req_url (manifest_request escaped token) =
      APS_BASE @ js ''/modelderivative/v2/designdata/'' @ escaped @ js ''/manifest''"
    if "urn \<noteq> js ''.''" "urn \<noteq> js ''..''"
  proof (rule manifest_url_plain)
    show "\<not> single_dot escaped" "\<not> double_dot escaped"
      using escaped_dot_segment [OF assms(6)] that by blast+
  qed
  ultimately show ?thesis
    by (simp add: reserialise_plain encodeURIComponent_defined)
qed

lemma sample_escape:
  "encodeURIComponent (js ''dXJuOmE/Yg=='') = Inr (js ''dXJuOmE%2FYg%3D%3D'')"
  by (simp add: encodeURIComponent_def escape_cp_def uri_unreserved_def percent_byte_def
      hex_digit_def utf8_cp_def high_surrogate_def low_surrogate_def js_def ch_def)

lemma sample_locator_not_dot: "js ''dXJuOmE/Yg=='' \<noteq> js ''.''" "js ''dXJuOmE/Yg=='' \<noteq> js ''..''"
  by (simp_all add: js_def)

lemma inprogress_plain: "plain_json (JObj [(js ''status'', JStr (js ''inprogress''))])"
  by (simp add: array_index_def is_digit_def in_range_def js_def ch_def)

text \<open>
  The manifest scenario of the specification: the upstream answers 202 with
  \<open>{"status":"inprogress"}\<close>, and the client receives 202 with that body.
\<close>

theorem C8_manifest_relay_witness:
  "manifest_route sample_platform sample_env
      (scripted [Resolved (json_response 200 token_bundle),
                 Resolved (json_response 202 (JObj [(js ''status'', JStr (js ''inprogress''))]))])
      (js ''dXJuOmE/Yg=='') [] =
     (\<lparr>http_status = 202,
       http_body = Some (JObj [(js ''status'', JStr (js ''inprogress''))])\<rparr>,
      [token_request sample_env,
       manifest_request (js ''dXJuOmE%2FYg%3D%3D'') (Some (JStr (js ''tok'')))])
   \<and> req_url (manifest_request (js ''dXJuOmE%2FYg%3D%3D'') (Some (JStr (js ''tok'')))) =
       APS_BASE @ js ''/modelderivative/v2/designdata/dXJuOmE%2FYg%3D%3D/manifest''"
proof -
  have "final_status (status_code
      (json_response 202 (JObj [(js ''status'', JStr (js ''inprogress''))])))"
    "\<not> bodyless (status_code
      (json_response 202 (JObj [(js ''status'', JStr (js ''inprogress''))])))"
    by (simp_all add: final_status_def bodyless_def json_response_def)
  with C8_manifest_relay [where e = sample_env and calls = "[]" and pl = sample_platform
      and up = "scripted [Resolved (json_response 200 token_bundle),
                 Resolved (json_response 202 (JObj [(js ''status'', JStr (js ''inprogress''))]))]"
      and tokenRes = "json_response 200 token_bundle" and tokenData = token_bundle
      and token = "Some (JStr (js ''tok''))" and urn = "js ''dXJuOmE/Yg==''"
      and escaped = "js ''dXJuOmE%2FYg%3D%3D''"
      and result = "json_response 202 (JObj [(js ''status'', JStr (js ''inprogress''))])"
      and data = "JObj [(js ''status'', JStr (js ''inprogress''))]"]
    sample_env_complete(1) sample_access_token sample_escape sample_locator_not_dot
    inprogress_plain
  show ?thesis
    by (simp add: scripted_def json_response_def ok_def) (simp add: js_def)
qed

text \<open>
  Claim C8 as stated fails in two ways. A body that repeats a key, \<open>{"a":1,"a":2}\<close>, reaches
  the client as \<open>{"a":2}\<close>. And the locator \<open>..\<close> is escaped to itself and then removed
  from the path as a dot segment, together with the segment before it: the request goes to
  \<open>/modelderivative/v2/manifest\<close>.
\<close>

theorem C8_manifest_relay_counterexample:
  "manifest_route sample_platform sample_env
      (scripted [Resolved (json_response 200 token_bundle),
                 Resolved (json_response 200 (JObj [(js ''a'', JNum 1), (js ''a'', JNum 2)]))])
      (js ''dXJuOmE/Yg=='') [] =
     (\<lparr>http_status = 200, http_body = Some (JObj [(js ''a'', JNum 2)])\<rparr>,
      [token_request sample_env,
       manifest_request (js ''dXJuOmE%2FYg%3D%3D'') (Some (JStr (js ''tok'')))])
   \<and> JObj [(js ''a'', JNum 2)] \<noteq> JObj [(js ''a'', JNum 1), (js ''a'', JNum 2)]
   \<and> encodeURIComponent (js ''..'') = Inr (js ''..'')
   \<and> req_url (manifest_request (js ''..'') (Some (JStr (js ''tok'')))) =
       APS_BASE @ js ''/modelderivative/v2/manifest''"
proof -
  have "reserialise (Number_roundtrip sample_platform) (JObj [(js ''a'', JNum 1), (js ''a'', JNum 2)])
      = JObj [(js ''a'', JNum 2)]"
    by (simp add: own_properties_def array_index_def decimal_value_def is_digit_def
        in_range_def js_def ch_def safe_integer_def)
  moreover have "manifest_route sample_platform sample_env
      (scripted [Resolved (json_response 200 token_bundle),
                 Resolved (json_response 200 (JObj [(js ''a'', JNum 1), (js ''a'', JNum 2)]))])
      (js ''dXJuOmE/Yg=='') [] =
     (send_json
        (status_code (json_response 200 (JObj [(js ''a'', JNum 1), (js ''a'', JNum 2)])))
        (reserialise (Number_roundtrip sample_platform)
           (JObj [(js ''a'', JNum 1), (js ''a'', JNum 2)])),
      [] @ [token_request sample_env,
       manifest_request (js ''dXJuOmE%2FYg%3D%3D'') (Some (JStr (js ''tok'')))])"
  proof (rule manifest_route_relay
      [where tokenRes = "json_response 200 token_bundle" and tokenData = token_bundle])
  qed (simp_all add: sample_env_complete sample_access_token sample_escape scripted_def
        json_response_def ok_def)
  ultimately have "manifest_route sample_platform sample_env
      (scripted [Resolved (json_response 200 token_bundle),
                 Resolved (json_response 200 (JObj [(js ''a'', JNum 1), (js ''a'', JNum 2)]))])
      (js ''dXJuOmE/Yg=='') [] =
     (\<lparr>http_status = 200, http_body = Some (JObj [(js ''a'', JNum 2)])\<rparr>,
      [token_request sample_env,
       manifest_request (js ''dXJuOmE%2FYg%3D%3D'') (Some (JStr (js ''tok'')))])"
    by (simp add: send_json_def bodyless_def json_response_def)
  moreover have "encodeURIComponent (js ''..'') = Inr (js ''..'')"
    by (rule encodeURIComponent_unreserved) (simp add: js_def ch_def uri_unreserved_def)
  moreover have "req_url (manifest_request (js ''..'') (Some (JStr (js ''tok'')))) =
       APS_BASE @ js ''/modelderivative/v2/manifest''"
    by (simp add: manifest_request_def url_path_def single_dot_def double_dot_def js_def ch_def)
  ultimately show ?thesis by simp
qed

subsection \<open>Splitting and trimming\<close>

lemma split_not_Nil: "split sep s \<noteq> []"
  by (induction s) (auto split: list.splits)

lemma join_split: "join [sep] (split sep s) = s"
proof (induction s)
  case Nil
  then show ?case by simp
next
  case (Cons c cs)
  obtain p ps where ps: "split sep cs = p # ps"
    using split_not_Nil [of sep cs] by (cases "split sep cs") auto
  show ?case
  proof (cases "c = sep")
    case True
    with Cons ps show ?thesis by simp
  next
    case False
    with Cons ps show ?thesis by (cases ps) simp_all
  qed
qed

lemma split_pieces: "p \<in> set (split sep s) \<Longrightarrow> sep \<notin> set p \<and> set p \<subseteq> set s"
proof (induction s arbitrary: p)
  case Nil
  then show ?case by simp
next
  case (Cons c cs)
  obtain q qs where qs: "split sep cs = q # qs"
    using split_not_Nil [of sep cs] by (cases "split sep cs") auto
  show ?case
  proof (cases "c = sep")
    case True
    with Cons.prems have "p = [] \<or> p \<in> set (split sep cs)" by simp
    with Cons.IH show ?thesis by auto
  next
    case False
    with Cons.prems qs have "p = c # q \<or> p \<in> set qs" by simp
    then show ?thesis
    proof
      assume "p = c # q"
      moreover have "sep \<notin> set q \<and> set q \<subseteq> set cs"
        using Cons.IH [of q] by (simp add: qs)
      ultimately show ?thesis using False by auto
    next
      assume "p \<in> set qs"
      then have "sep \<notin> set p \<and> set p \<subseteq> set cs"
        using Cons.IH [of p] by (simp add: qs)
      then show ?thesis by auto
    qed
  qed
qed

lemma trim_decomposition:
  "\<exists>l r. p = l @ trim p @ r \<and> (\<forall>c \<in> set l. white_space c) \<and> (\<forall>c \<in> set r. white_space c)"
proof -
  let ?l = "takeWhile white_space p"
  let ?m = "dropWhile white_space p"
  let ?r = "rev (takeWhile white_space (rev ?m))"
  have "rev ?m = takeWhile white_space (rev ?m) @ dropWhile white_space (rev ?m)"
    by simp
  then have "?m = rev (dropWhile white_space (rev ?m)) @ ?r"
    by (metis rev_append rev_rev_ident)
  then have "p = ?l @ trim p @ ?r"
    by (metis takeWhile_dropWhile_id trim_def)
  moreover have "\<forall>c \<in> set ?l. white_space c" "\<forall>c \<in> set ?r. white_space c"
    by (auto dest: set_takeWhileD)
  ultimately show ?thesis by blast
qed

lemma trim_edges:
  assumes "trim p \<noteq> []"
  shows "\<not> white_space (hd (trim p)) \<and> \<not> white_space (last (trim p))"
proof -
  let ?m = "dropWhile white_space p"
  let ?d = "dropWhile white_space (rev ?m)"
  from assms have d: "?d \<noteq> []" by (simp add: trim_def)
  then have "\<not> white_space (hd ?d)" by (rule hd_dropWhile)
  then have last: "\<not> white_space (last (trim p))"
    using d by (simp add: trim_def last_rev)
  have m: "?m \<noteq> []"
  proof
    assume "?m = []"
    then have "?d = []" by (simp only: rev.simps dropWhile.simps)
    with d show False by (simp only:)
  qed
  then have "\<not> white_space (hd ?m)" by (rule hd_dropWhile)
  moreover have "hd (trim p) = hd ?m"
  proof -
    have "rev ?m = takeWhile white_space (rev ?m) @ ?d" by simp
    then have "?m = trim p @ rev (takeWhile white_space (rev ?m))"
      by (metis rev_append rev_rev_ident trim_def)
    with assms show ?thesis by (metis hd_append2)
  qed
  ultimately show ?thesis using last by simp
qed

lemma trim_white:
  assumes "\<forall>c \<in> set p. white_space c"
  shows "trim p = []"
proof -
  from assms have "dropWhile white_space p = []" by simp
  then show ?thesis
    unfolding trim_def by (simp only: rev.simps dropWhile.simps)
qed

lemma comma_not_white: "\<not> white_space (ch CHR '','')"
  by (simp add: white_space_def ch_def)

text \<open>
  Claim C10. The allow-list is the configured string split at its commas, each piece
  trimmed, the empty results dropped. The pieces are exactly the comma-free stretches of the
  string (joining them with commas gives the string back); trimming a piece removes white
  space at its two ends and nothing else; so every entry is non-empty and neither starts
  nor ends with white space. A string of commas and white space only gives the empty
  allow-list, under which the guard accepts every request.
\<close>

theorem C10_allowed_origins:
  "allowedOrigins e =
      filter (\<lambda>x. x \<noteq> []) (map trim (split (ch CHR '','') (APS_ALLOWED_ORIGINS e)))
   \<and> join [ch CHR '',''] (split (ch CHR '','') (APS_ALLOWED_ORIGINS e)) = APS_ALLOWED_ORIGINS e
   \<and> (\<forall>p \<in> set (split (ch CHR '','') (APS_ALLOWED_ORIGINS e)).
         ch CHR '','' \<notin> set p
         \<and> (\<exists>l r. p = l @ trim p @ r
               \<and> (\<forall>c \<in> set l. white_space c) \<and> (\<forall>c \<in> set r. white_space c)))
   \<and> (\<forall>x \<in> set (allowedOrigins e).
         x \<noteq> [] \<and> \<not> white_space (hd x) \<and> \<not> white_space (last x))
   \<and> ((\<forall>c \<in> set (APS_ALLOWED_ORIGINS e). c = ch CHR '','' \<or> white_space c) \<longrightarrow>
         allowedOrigins e = [] \<and> (\<forall>og. cors_origin e og = Inr True))"
proof -
  let ?s = "APS_ALLOWED_ORIGINS e"
  have entries: "x \<noteq> [] \<and> \<not> white_space (hd x) \<and> \<not> white_space (last x)"
    if "x \<in> set (allowedOrigins e)" for x
  proof -
    from that obtain p where "x = trim p" "x \<noteq> []"
      by (auto simp: allowedOrigins_def)
    then show ?thesis using trim_edges [of p] by simp
  qed
  have blank: "allowedOrigins e = [] \<and> (\<forall>og. cors_origin e og = Inr True)"
    if "\<forall>c \<in> set ?s. c = ch CHR '','' \<or> white_space c"
  proof -
    have "trim p = []" if "p \<in> set (split (ch CHR '','') ?s)" for p
    proof -
      from that have "ch CHR '','' \<notin> set p" "set p \<subseteq> set ?s"
        using split_pieces by blast+
      with \<open>\<forall>c \<in> set ?s. c = ch CHR '','' \<or> white_space c\<close>
      have "\<forall>c \<in> set p. white_space c" by auto
      then show ?thesis by (rule trim_white)
    qed
    then have "allowedOrigins e = []"
      by (auto simp: allowedOrigins_def filter_empty_conv)
    then show ?thesis by (simp add: cors_origin_def)
  qed
  show ?thesis
    using entries blank split_pieces [of _ "ch CHR '',''" ?s] trim_decomposition
    by (simp add: allowedOrigins_def join_split)
qed

lemma blank_allowed_chars:
  "\<forall>c \<in> set (APS_ALLOWED_ORIGINS blank_env). c = ch CHR '','' \<or> white_space c"
  by (simp add: APS_ALLOWED_ORIGINS_def blank_env_def white_space_def js_def ch_def)

text \<open>
  The configured string \<open>" , ,,  "\<close> gives no entry and lets \<open>https://evil.example\<close> in;
  \<open>" https://a.example ,, https://b.example "\<close> gives the two origins.
\<close>

theorem C10_allowed_origins_witness:
  "allowedOrigins blank_env = []
   \<and> cors_origin blank_env (Some (js ''https://evil.example'')) = Inr True
   \<and> allowedOrigins restricted_env = [js ''https://a.example'', js ''https://b.example'']
   \<and> \<not> white_space (hd (js ''https://a.example''))
   \<and> \<not> white_space (last (js ''https://b.example''))"
proof -
  from C10_allowed_origins [of blank_env] blank_allowed_chars
  have "allowedOrigins blank_env = [] \<and> (\<forall>og. cors_origin blank_env og = Inr True)"
    by blast
  moreover from C10_allowed_origins [of restricted_env]
  have "\<forall>x \<in> set (allowedOrigins restricted_env).
         x \<noteq> [] \<and> \<not> white_space (hd x) \<and> \<not> white_space (last x)"
    by blast
  ultimately show ?thesis
    by (simp add: restricted_allowedOrigins)
qed

end
